theory Spec2Isabelle
  imports Main "HOL-Library.Word" "HOL-Library.AList"
begin

unbundle bit_operations_syntax

section \<open>Wire data and errors\<close>

text \<open>
  Go's \<open>int32\<close> and \<open>uint32\<close> are 32-bit words: \<open>+\<close> wraps, \<open>sint\<close> reads the
  signed value of a request id, \<open>unat\<close> the unsigned value of a length. A byte slice and
  a Go string are both lists of 8-bit characters.
\<close>

type_synonym int32 = "32 word"
type_synonym uint32 = "32 word"
type_synonym Flag = "8 word"
type_synonym addr = nat

record CallError =
  Name :: string
  Message :: string
  Stack :: string

text \<open>
  Error values. \<open>New m\<close> is \<open>errors.New(m)\<close>; \<open>Errorf f x\<close> is \<open>errors.Errorf(f, x)\<close>
  with its format string and argument kept apart; \<open>Wrap e m\<close> is \<open>errors.Wrap(e, m)\<close>
  (and \<open>Wrapf\<close>, the numeric arguments of the message dropped) for a non-nil \<open>e\<close>;
  \<open>IoEOF\<close> is \<open>io.EOF\<close> and \<open>EOS\<close> is \<open>luigi.EOS{}\<close>;
  \<open>Errorfw m e\<close> is \<open>fmt.Errorf(m ++ ": %w", e)\<close>; \<open>CallErr\<close> is a \<open>*CallError\<close> used
  as an error; \<open>IOError\<close> is any error of the transport. A nil error is \<open>None\<close> of
  \<open>error option\<close>.
\<close>

datatype error =
    EOS
  | ErrSessionTerminated
  | IoEOF
  | ErrUnexpectedEOF
  | ContextCanceled
  | CallErr CallError
  | New string
  | Errorf string string
  | Wrap error string
  | Errorfw string error
  | IOError string

text \<open>\<open>errors.Cause\<close> strips the wrappers of \<open>errors.Wrap\<close>; \<open>luigi.IsEOS\<close> tests the cause.\<close>

fun Cause :: "error \<Rightarrow> error" where
  "Cause (Wrap e m) = Cause e"
| "Cause e = e"

definition IsEOS :: "error option \<Rightarrow> bool" where
  "IsEOS err = (case err of None \<Rightarrow> False | Some e \<Rightarrow> Cause e = EOS)"

text \<open>
  Modelled from the spec: the flag bits of package \<open>codec\<close> (bit 3 \<open>stream\<close>, bit 2
  \<open>endOrError\<close>, bits 1..0 the body kind with 01 = string and 10 = json) and the two
  accessors \<open>Flag.Set\<close> and \<open>Flag.Get\<close>.
\<close>

definition FlagString :: Flag where "FlagString = 1"
definition FlagJSON :: Flag where "FlagJSON = 2"
definition FlagEndErr :: Flag where "FlagEndErr = 4"
definition FlagStream :: Flag where "FlagStream = 8"

definition Flag_Set :: "Flag \<Rightarrow> Flag \<Rightarrow> Flag" where
  "Flag_Set f g = f OR g"

definition Flag_Get :: "Flag \<Rightarrow> Flag \<Rightarrow> bool" where
  "Flag_Get f g = (f AND g = g)"

record Header =
  hFlag :: Flag
  hLen :: uint32
  hReq :: int32

record Packet =
  pFlag :: Flag
  pReq :: int32
  pBody :: string

text \<open>
  An \<open>io.Reader\<close> over the bytes the transport still delivers for one body: it yields
  \<open>rdata\<close> and then fails with \<open>rerr\<close>, or ends cleanly when \<open>rerr\<close> is \<open>None\<close>.
\<close>

record reader =
  rdata :: string
  rerr :: "error option"

text \<open>\<open>io.ReadFull\<close> into a buffer of \<open>n\<close> bytes; \<open>ReadBodyInto\<close> of the codec reads the same way.\<close>

definition ReadFull :: "reader \<Rightarrow> nat \<Rightarrow> error + string" where
  "ReadFull rd n =
     (if n \<le> length (rdata rd) then Inr (take n (rdata rd))
      else Inl (case rerr rd of Some e \<Rightarrow> e | None \<Rightarrow> ErrUnexpectedEOF))"

text \<open>
  Modelled from the spec: the \<open>Packer\<close>. \<open>Pour\<close> serialises one whole packet onto the
  transport, \<open>Close\<close> closes the transport and is idempotent. The packets written so far
  are kept in \<open>sent\<close>.
\<close>

record Packer =
  sent :: "Packet list"
  pkrClosed :: bool

definition Packer_Pour :: "Packer \<Rightarrow> Packet \<Rightarrow> error + Packer" where
  "Packer_Pour p pkt =
     (if pkrClosed p then Inl (IOError ''use of closed network connection'')
      else Inr (p\<lparr>sent := sent p @ [pkt]\<rparr>))"

definition Packer_Close :: "Packer \<Rightarrow> error option \<times> Packer" where
  "Packer_Close p = (None, p\<lparr>pkrClosed := True\<rparr>)"

definition NewPacker :: Packer where
  "NewPacker = \<lparr>sent = [], pkrClosed = False\<rparr>"

section \<open>The byte source and its frame buffer\<close>

text \<open>
  \<open>frameBuffer\<close>: \<open>store\<close> is the \<open>bytes.Buffer\<close> (written at the end, read from the
  front), \<open>waiting\<close> says whether the \<open>waiting\<close> channel is non-nil, \<open>lenBuf\<close> is the
  four-byte scratch array.
\<close>

record frameBuffer =
  store :: string
  waiting :: bool
  currentFrameTotal :: uint32
  currentFrameRead :: uint32
  frames :: uint32
  lenBuf :: string

text \<open>\<open>binary.LittleEndian.PutUint32\<close> and \<open>binary.LittleEndian.Uint32\<close>.\<close>

definition PutUint32 :: "uint32 \<Rightarrow> string" where
  "PutUint32 v =
     [char_of (unat v), char_of (unat v div 256),
      char_of (unat v div 65536), char_of (unat v div 16777216)]"

definition Uint32 :: "string \<Rightarrow> uint32" where
  "Uint32 b =
     of_nat (of_char (b ! 0) + 256 * of_char (b ! 1)
             + 65536 * of_char (b ! 2) + 16777216 * (of_char (b ! 3) :: nat))"

text \<open>
  \<open>copyBody\<close> writes the length header, then copies the reader into the store
  (\<open>io.Copy\<close>), and only then checks the copy: on a failed copy the header and the
  bytes copied so far stay in the store and \<open>frames\<close> is not incremented.
\<close>

definition copyBody :: "frameBuffer \<Rightarrow> uint32 \<Rightarrow> reader \<Rightarrow> error option \<times> frameBuffer" where
  "copyBody fw pktLen rd =
     (let fw1 = fw\<lparr>lenBuf := PutUint32 pktLen\<rparr>;
          fw2 = fw1\<lparr>store := store fw1 @ lenBuf fw1\<rparr>;
          fw3 = fw2\<lparr>store := store fw2 @ rdata rd\<rparr>
      in case rerr rd of
           Some e \<Rightarrow> (Some e, fw3)
         | None \<Rightarrow>
             if (of_nat (length (rdata rd)) :: uint32) \<noteq> pktLen
             then (Some (New ''frameBuffer: failed to consume whole body''), fw3)
             else (None, fw3\<lparr>frames := frames fw3 + 1, waiting := False\<rparr>))"

text \<open>
  The reader handed out for a frame: an \<open>io.LimitReader\<close> over the store with \<open>limN\<close>
  bytes left, counting what it reads into \<open>currentFrameRead\<close>.
\<close>

record countingReader =
  limN :: nat

definition getNextFrameReader ::
  "frameBuffer \<Rightarrow> (error + uint32 \<times> countingReader) \<times> frameBuffer" where
  "getNextFrameReader fw =
     (let diff = (if currentFrameTotal fw \<noteq> 0
                  then unat (currentFrameTotal fw - currentFrameRead fw) else 0);
          fw1 = (if 0 < diff then fw\<lparr>store := drop diff (store fw)\<rparr> else fw)
      in if store fw1 = [] then (Inl IoEOF, fw1)
         else
           let n = min 4 (length (store fw1));
               fw2 = fw1\<lparr>lenBuf := take n (store fw1) @ drop n (lenBuf fw1),
                         store := drop n (store fw1)\<rparr>;
               pktLen = Uint32 (lenBuf fw2);
               fw3 = fw2\<lparr>currentFrameRead := 0, currentFrameTotal := pktLen,
                         frames := frames fw2 + 0xFFFFFFFF\<rparr>
           in (Inr (pktLen, \<lparr>limN = unat pktLen\<rparr>), fw3))"

text \<open>\<open>countingReader.Read\<close> into a buffer of \<open>k\<close> bytes.\<close>

definition countingReader_Read ::
  "countingReader \<Rightarrow> frameBuffer \<Rightarrow> nat
     \<Rightarrow> (string \<times> error option) \<times> countingReader \<times> frameBuffer" where
  "countingReader_Read cr fw k =
     (if limN cr = 0 then (([], Some IoEOF), cr, fw)
      else
        let p = min k (limN cr) in
        if store fw = [] then (([], if p = 0 then None else Some IoEOF), cr, fw)
        else
          let b = take p (store fw); n = length b in
          ((b, None), cr\<lparr>limN := limN cr - n\<rparr>,
           fw\<lparr>store := drop n (store fw),
              currentFrameRead := (if 0 < n then currentFrameRead fw + of_nat n
                                   else currentFrameRead fw)\<rparr>))"

text \<open>
  \<open>ioutil.ReadAll\<close> on a frame's reader: the loop of \<open>Read\<close> calls up to \<open>io.EOF\<close>
  delivers every byte the limit and the store allow.
\<close>

definition ReadAll :: "countingReader \<Rightarrow> frameBuffer \<Rightarrow> string \<times> countingReader \<times> frameBuffer" where
  "ReadAll cr fw =
     (case countingReader_Read cr fw (limN cr) of ((b, e), cr', fw') \<Rightarrow> (b, cr', fw'))"

definition newFrameBuffer :: frameBuffer where
  "newFrameBuffer =
     \<lparr>store = [], waiting = False, currentFrameTotal = 0, currentFrameRead = 0,
      frames = 0, lenBuf = [CHR 0x00, CHR 0x00, CHR 0x00, CHR 0x00]\<rparr>"

text \<open>
  \<open>ByteSource\<close>: \<open>closedCh\<close> says whether the channel \<open>closed\<close> has been closed. A
  call either returns or panics; a panic keeps the state reached when it was raised.
\<close>

record ByteSource =
  buf :: frameBuffer
  closedCh :: bool
  failed :: "error option"

datatype 'a result = Ok 'a | Panic string 'a

definition newByteSource :: ByteSource where
  "newByteSource = \<lparr>buf = newFrameBuffer, closedCh = False, failed = None\<rparr>"

definition ByteSource_CloseWithError :: "ByteSource \<Rightarrow> error option \<Rightarrow> ByteSource result" where
  "ByteSource_CloseWithError bs err =
     (let bs1 = bs\<lparr>failed := (case err of None \<Rightarrow> Some EOS | Some e \<Rightarrow> Some e)\<rparr>
      in if closedCh bs1 then Panic ''close of closed channel'' bs1
         else Ok (bs1\<lparr>closedCh := True\<rparr>))"

definition ByteSource_Close :: "ByteSource \<Rightarrow> ByteSource result" where
  "ByteSource_Close bs = ByteSource_CloseWithError bs None"

definition ByteSource_Cancel :: "ByteSource \<Rightarrow> error option \<Rightarrow> ByteSource result" where
  "ByteSource_Cancel bs err =
     (if failed bs \<noteq> None then Ok bs else ByteSource_CloseWithError bs err)"

definition ByteSource_Err :: "ByteSource \<Rightarrow> error option" where
  "ByteSource_Err bs =
     (if IsEOS (failed bs) \<or> failed bs = Some ContextCanceled then None else failed bs)"

definition ByteSource_consume :: "ByteSource \<Rightarrow> uint32 \<Rightarrow> reader \<Rightarrow> error option \<times> ByteSource" where
  "ByteSource_consume bs pktLen r =
     (case failed bs of
        Some e \<Rightarrow> (Some (Errorfw ''muxrpc: byte source canceled'' e), bs)
      | None \<Rightarrow>
          (case copyBody (buf bs) pktLen r of (err, fw) \<Rightarrow> (err, bs\<lparr>buf := fw\<rparr>)))"

definition ByteSource_Bytes :: "ByteSource \<Rightarrow> (error + string) \<times> ByteSource" where
  "ByteSource_Bytes bs =
     (case getNextFrameReader (buf bs) of
        (Inl e, fw) \<Rightarrow> (Inl e, bs\<lparr>buf := fw\<rparr>)
      | (Inr (n, rd), fw) \<Rightarrow>
          (case ReadAll rd fw of (b, rd', fw') \<Rightarrow> (Inr b, bs\<lparr>buf := fw'\<rparr>)))"

section \<open>Streams, requests and the session\<close>

text \<open>
  Modelled from the spec: the stream end-point of \<open>newStream\<close> (request id, input and
  output capability, optional element type, a closed flag and a terminal error slot) with
  its setters \<open>WithReq\<close> and \<open>WithType\<close>, and the buffered pipe of \<open>luigi.NewPipe\<close>: a
  queue of bounded capacity whose producer blocks while it is full.
\<close>

datatype streamCapability = streamCapNone | streamCapOnce | streamCapMultiple

record stream =
  sReq :: int32
  inCap :: streamCapability
  outCap :: streamCapability
  sTipe :: "string option"
  sClosed :: bool
  sErr :: "error option"

definition newStream :: "int32 \<Rightarrow> streamCapability \<Rightarrow> streamCapability \<Rightarrow> stream" where
  "newStream req ins outs =
     \<lparr>sReq = req, inCap = ins, outCap = outs, sTipe = None, sClosed = False, sErr = None\<rparr>"

definition WithReq :: "int32 \<Rightarrow> stream \<Rightarrow> stream" where
  "WithReq req s = s\<lparr>sReq := req\<rparr>"

definition WithType :: "string option \<Rightarrow> stream \<Rightarrow> stream" where
  "WithType t s = s\<lparr>sTipe := t\<rparr>"

record pipe =
  pcap :: nat
  queue :: "Packet list"

definition NewPipe :: "nat \<Rightarrow> pipe" where
  "NewPipe n = \<lparr>pcap = n, queue = []\<rparr>"

text \<open>\<open>Pour\<close> on the sink end of a pipe; \<open>None\<close> is a producer blocked on a full queue.\<close>

definition pipe_Pour :: "pipe \<Rightarrow> Packet \<Rightarrow> pipe option" where
  "pipe_Pour p v = (if length (queue p) < pcap p then Some (p\<lparr>queue := queue p @ [v]\<rparr>) else None)"

text \<open>
  A \<open>Request\<close>. Field \<open>in\<close> is \<open>inSink\<close> (\<open>None\<close> is nil); \<open>consume\<close> and \<open>done\<close> are
  closures over one byte source, kept as \<open>byteSrc\<close>; \<open>abort\<close> is nil, the no-op
  \<open>func() {}\<close> or the cancel function of the handler context, whose effect is recorded in
  \<open>ctxCancelled\<close>.
\<close>

datatype abortFn = Noop | CancelFunc

record Request =
  Type :: string
  Stream :: stream
  inSink :: "pipe option"
  byteSrc :: "ByteSource option"
  Method :: "string list"
  RawArgs :: "string option"
  tipe :: "string option"
  reqId :: int32
  abort :: "abortFn option"
  ctxCancelled :: bool

definition zeroRequest :: Request where
  "zeroRequest =
     \<lparr>Type = [], Stream = newStream 0 streamCapNone streamCapNone, inSink = None,
      byteSrc = None, Method = [], RawArgs = None, tipe = None, reqId = 0,
      abort = None, ctxCancelled = False\<rparr>"

text \<open>Calling \<open>req.abort()\<close>; \<open>None\<close> is the panic of calling a nil function.\<close>

definition Request_abort :: "Request \<Rightarrow> Request option" where
  "Request_abort req =
     (case abort req of
        None \<Rightarrow> None
      | Some Noop \<Rightarrow> Some req
      | Some CancelFunc \<Rightarrow> Some (req\<lparr>ctxCancelled := True\<rparr>))"

text \<open>
  Modelled from the spec: \<open>Request.CloseWithError\<close>, which is not among the source
  files. It closes the request's stream: with a nil error the terminal state is
  end-of-stream, otherwise it is the error; a stream that is closed already keeps its
  terminal state.
\<close>

definition Request_CloseWithError :: "error option \<Rightarrow> Request \<Rightarrow> Request" where
  "Request_CloseWithError cerr req =
     (if sClosed (Stream req) then req
      else req\<lparr>Stream := (Stream req)\<lparr>sClosed := True,
                 sErr := Some (case cerr of None \<Rightarrow> EOS | Some e \<Rightarrow> e)\<rparr>\<rparr>)"

text \<open>
  Modelled from the spec: \<open>CallType.Flags\<close> (the stream flag is set for source, sink and
  duplex calls and clear for async calls) and \<open>AsStream\<close> of a byte source (a source call
  reads many values and writes none).
\<close>

definition CallType_Flags :: "string \<Rightarrow> Flag" where
  "CallType_Flags t =
     (if t = ''source'' \<or> t = ''sink'' \<or> t = ''duplex'' then FlagStream else 0)"

definition AsStream :: "ByteSource \<Rightarrow> stream" where
  "AsStream bs = newStream 0 streamCapMultiple streamCapNone"

text \<open>
  The functions of \<open>encoding/json\<close> the session calls and the predicate
  \<open>isAlreadyClosed\<close> are parameters of the model: \<open>jsonMarshalArgs\<close> is
  \<open>json.Marshal(args)\<close>, \<open>jsonMarshalRequest\<close> is \<open>json.Marshal(req)\<close>,
  \<open>jsonDecodeRequest\<close> is \<open>json.NewDecoder(rd).Decode(&req)\<close> giving the three exported
  fields, \<open>jsonUnmarshalCallError\<close> is \<open>json.Unmarshal(data, &e)\<close>.
\<close>

record RequestJSON =
  jName :: "string list"
  jType :: string
  jArgs :: "string option"

record env =
  jsonMarshalArgs :: "string list \<Rightarrow> error + string"
  jsonMarshalRequest :: "Request \<Rightarrow> error + string"
  jsonDecodeRequest :: "reader \<Rightarrow> error + RequestJSON"
  jsonUnmarshalCallError :: "string \<Rightarrow> error + CallError"
  isAlreadyClosed :: "error \<Rightarrow> bool"

text \<open>
  The session. \<open>*Request\<close> pointers are addresses into \<open>heap\<close>, \<open>fresh\<close> is the next
  unused address; \<open>reqs\<close> is the map from request id to request, an association list
  with unique keys; \<open>cancelled\<close> records a call of the root \<open>cancel\<close>; \<open>handled\<close> lists
  the requests for which a \<open>HandleCall\<close> goroutine was started.
\<close>

record rpc =
  pkr :: Packer
  heap :: "addr \<Rightarrow> Request"
  fresh :: addr
  reqs :: "(int32 \<times> addr) list"
  highest :: int32
  terminated :: bool
  cancelled :: bool
  handled :: "addr list"

definition bufSize :: nat where
  "bufSize = 150"

definition handle :: "Packer \<Rightarrow> rpc" where
  "handle p =
     \<lparr>pkr = p, heap = (\<lambda>a. zeroRequest), fresh = 0, reqs = [], highest = 0,
      terminated = False, cancelled = False, handled = []\<rparr>"

text \<open>\<open>req := &Request{...}\<close>: a new object on the heap.\<close>

definition alloc :: "rpc \<Rightarrow> Request \<Rightarrow> addr \<times> rpc" where
  "alloc r req = (fresh r, r\<lparr>heap := (heap r)(fresh r := req), fresh := Suc (fresh r)\<rparr>)"

definition marshalCallArgs :: "env \<Rightarrow> string list \<Rightarrow> error + string" where
  "marshalCallArgs ev args =
     (if length args = 0 then Inr ''[]''
      else (case jsonMarshalArgs ev args of
              Inl e \<Rightarrow> Inl (Wrap e ''error marshaling request arguments'')
            | Inr argData \<Rightarrow> Inr argData))"

text \<open>\<open>Do\<close> executes a generic call on the request at address \<open>a\<close>.\<close>

definition Do :: "env \<Rightarrow> rpc \<Rightarrow> addr \<Rightarrow> error option \<times> rpc" where
  "Do ev r a =
     (let req0 = heap r a;
          req1 = (if abort req0 = None then req0\<lparr>abort := Some Noop\<rparr> else req0);
          req2 = (if RawArgs req1 = None then req1\<lparr>RawArgs := Some ''[]''\<rparr> else req1);
          flag = Flag_Set (Flag_Set 0 FlagJSON) (CallType_Flags (Type req2));
          m = jsonMarshalRequest ev req2;
          new = highest r + 1;
          req3 = req2\<lparr>Stream := WithType (tipe req2) (WithReq new (Stream req2)),
                     reqId := new\<rparr>;
          r1 = r\<lparr>highest := new, reqs := AList.update new a (reqs r),
                 heap := (heap r)(a := req3)\<rparr>
      in case m of
           Inl e \<Rightarrow> (Some e, r1)
         | Inr body \<Rightarrow>
             (case Packer_Pour (pkr r1) \<lparr>pFlag = flag, pReq = new, pBody = body\<rparr> of
                Inl e \<Rightarrow> (Some e, r1)
              | Inr p \<Rightarrow> (None, r1\<lparr>pkr := p\<rparr>)))"

text \<open>
  The four call constructors, up to the return of \<open>Do\<close>: the result is the address of
  the request whose stream the caller goes on to use (\<open>Async\<close> then blocks in
  \<open>req.Stream.Next\<close>).
\<close>

definition startCall :: "env \<Rightarrow> rpc \<Rightarrow> Request \<Rightarrow> (error + addr) \<times> rpc" where
  "startCall ev r req =
     (case alloc r req of (a, r1) \<Rightarrow>
        (case Do ev r1 a of
           (Some e, r2) \<Rightarrow> (Inl (Wrap e ''error sending request''), r2)
         | (None, r2) \<Rightarrow> (Inr a, r2)))"

definition Async :: "env \<Rightarrow> rpc \<Rightarrow> string option \<Rightarrow> string list \<Rightarrow> string list \<Rightarrow> (error + addr) \<times> rpc" where
  "Async ev r tp method args =
     (let p = NewPipe bufSize in
      case marshalCallArgs ev args of
        Inl e \<Rightarrow> (Inl e, r)
      | Inr argData \<Rightarrow>
          startCall ev r (zeroRequest\<lparr>Type := ''async'',
            Stream := newStream 0 streamCapOnce streamCapNone, inSink := Some p,
            Method := method, RawArgs := Some argData, tipe := tp\<rparr>))"

definition Source :: "env \<Rightarrow> rpc \<Rightarrow> string option \<Rightarrow> string list \<Rightarrow> string list \<Rightarrow> (error + addr) \<times> rpc" where
  "Source ev r tp method args =
     (case marshalCallArgs ev args of
        Inl e \<Rightarrow> (Inl e, r)
      | Inr argData \<Rightarrow>
          (let bs = newByteSource in
           startCall ev r (zeroRequest\<lparr>Type := ''source'', Stream := AsStream bs,
             byteSrc := Some bs, Method := method, RawArgs := Some argData, tipe := tp\<rparr>)))"

definition Sink :: "env \<Rightarrow> rpc \<Rightarrow> string list \<Rightarrow> string list \<Rightarrow> (error + addr) \<times> rpc" where
  "Sink ev r method args =
     (let p = NewPipe bufSize in
      case marshalCallArgs ev args of
        Inl e \<Rightarrow> (Inl e, r)
      | Inr argData \<Rightarrow>
          startCall ev r (zeroRequest\<lparr>Type := ''sink'',
            Stream := newStream 0 streamCapNone streamCapMultiple, inSink := Some p,
            Method := method, RawArgs := Some argData\<rparr>))"

definition Duplex :: "env \<Rightarrow> rpc \<Rightarrow> string option \<Rightarrow> string list \<Rightarrow> string list \<Rightarrow> (error + addr) \<times> rpc" where
  "Duplex ev r tp method args =
     (let p = NewPipe bufSize in
      case marshalCallArgs ev args of
        Inl e \<Rightarrow> (Inl e, r)
      | Inr argData \<Rightarrow>
          startCall ev r (zeroRequest\<lparr>Type := ''duplex'',
            Stream := newStream 0 streamCapMultiple streamCapMultiple, inSink := Some p,
            Method := method, RawArgs := Some argData, tipe := tp\<rparr>))"

text \<open>\<open>Terminate\<close> ends the session.\<close>

definition closeAll :: "error \<Rightarrow> addr list \<Rightarrow> (addr \<Rightarrow> Request) \<Rightarrow> (addr \<Rightarrow> Request)" where
  "closeAll e as h = fold (\<lambda>a h'. h'(a := Request_CloseWithError (Some e) (h' a))) as h"

definition Terminate :: "rpc \<Rightarrow> error option \<times> rpc" where
  "Terminate r =
     (let r1 = r\<lparr>cancelled := True\<rparr>;
          r2 = r1\<lparr>terminated := True\<rparr>;
          r3 = (if 0 < length (reqs r2)
                then r2\<lparr>heap := closeAll ErrSessionTerminated (map snd (reqs r2)) (heap r2)\<rparr>
                else r2)
      in case Packer_Close (pkr r3) of (e, p) \<Rightarrow> (e, r3\<lparr>pkr := p\<rparr>))"

text \<open>
  \<open>ParseRequest\<close> parses the first packet of a stream; \<open>rd\<close> is the body reader
  \<open>r.pkr.r.NextBodyReader(pkt.Len)\<close>.
\<close>

definition ParseRequest :: "env \<Rightarrow> rpc \<Rightarrow> Header \<Rightarrow> reader \<Rightarrow> error + Request" where
  "ParseRequest ev r pkt rd =
     (if \<not> Flag_Get (hFlag pkt) FlagJSON then Inl (New ''expected JSON flag'')
      else if 0 \<le> sint (hReq pkt) then Inl (New ''expected negative request id'')
      else
        (case jsonDecodeRequest ev rd of
           Inl e \<Rightarrow> Inl (Wrap e ''error decoding packet'')
         | Inr j \<Rightarrow>
             (let req = zeroRequest\<lparr>Method := jName j, Type := jType j,
                          RawArgs := jArgs j, reqId := hReq pkt\<rparr>;
                  p = NewPipe bufSize
              in if Flag_Get (hFlag pkt) FlagStream then
                   (if Type req = ''duplex'' then
                      Inr (req\<lparr>Stream := newStream (hReq pkt) streamCapMultiple streamCapMultiple,
                                inSink := Some p\<rparr>)
                    else if Type req = ''source'' then
                      Inr (req\<lparr>Stream := newStream (hReq pkt) streamCapNone streamCapMultiple,
                                inSink := Some p\<rparr>)
                    else if Type req = ''sink'' then
                      Inr (req\<lparr>Stream := newStream (hReq pkt) streamCapMultiple streamCapNone,
                                inSink := Some p\<rparr>)
                    else Inl (Errorf ''unhandled request type: %q'' (Type req)))
                 else
                   (let req' = (if Type req = [] then req\<lparr>Type := ''async''\<rparr> else req)
                    in if Type req' \<noteq> ''async''
                       then Inl (Errorf ''unhandled request type: %q'' (Type req'))
                       else Inr (req'\<lparr>Stream := newStream (hReq pkt) streamCapNone streamCapOnce,
                                      inSink := Some p\<rparr>)))))"

definition isTrue :: "string \<Rightarrow> bool" where
  "isTrue data =
     (length data = 4 \<and> data ! 0 = CHR ''t'' \<and> data ! 1 = CHR ''r''
      \<and> data ! 2 = CHR ''u'' \<and> data ! 3 = CHR ''e'')"

text \<open>
  \<open>fetchRequest\<close> returns the request from the \<open>reqs\<close> map or, if it is not there yet,
  builds a new one and starts its handler.
\<close>

definition fetchRequest :: "env \<Rightarrow> rpc \<Rightarrow> Header \<Rightarrow> reader \<Rightarrow> (error + addr \<times> bool) \<times> rpc" where
  "fetchRequest ev r hdr rd =
     (case map_of (reqs r) (hReq hdr) of
        Some a \<Rightarrow> (Inr (a, False), r)
      | None \<Rightarrow>
          (case ParseRequest ev r hdr rd of
             Inl e \<Rightarrow> (Inl (Wrap e ''error parsing request''), r)
           | Inr req \<Rightarrow>
               (case alloc r (req\<lparr>abort := Some CancelFunc\<rparr>) of (a, r1) \<Rightarrow>
                  (Inr (a, True),
                   r1\<lparr>reqs := AList.update (hReq hdr) a (reqs r1),
                      handled := handled r1 @ [a]\<rparr>))))"

definition parseError :: "env \<Rightarrow> string \<Rightarrow> error + CallError" where
  "parseError ev data =
     (case jsonUnmarshalCallError ev data of
        Inl e \<Rightarrow> Inl (Wrap e ''error unmarshaling error packet'')
      | Inr e \<Rightarrow> Inr e)"

text \<open>
  \<open>closeStream\<close>; the goroutine \<open>Serve\<close> starts for it is run at the point where it is
  started.
\<close>

definition closeStream :: "rpc \<Rightarrow> addr \<Rightarrow> error option \<Rightarrow> rpc" where
  "closeStream r a streamErr =
     (let req = Request_CloseWithError streamErr (heap r a)
      in r\<lparr>heap := (heap r)(a := req), reqs := AList.delete (reqId req) (reqs r)\<rparr>)"

section \<open>The serve loop\<close>

text \<open>
  What one pass of the loop in \<open>Serve\<close> does next: go round again, return from
  \<open>Serve\<close>, panic, or stay blocked pouring into a full queue. \<open>Waiting\<close> is a serve loop
  blocked in \<open>NextHeader\<close> because the transport has nothing more to deliver.
\<close>

datatype serve = Continue | Return "error option" | Panicked string | Blocked | Waiting

text \<open>The closure \<open>doRet\<close>, applied to the error \<open>NextHeader\<close> returned.\<close>

definition doRet :: "env \<Rightarrow> rpc \<Rightarrow> error option \<Rightarrow> bool \<times> error option" where
  "doRet ev r err =
     (if IsEOS err \<or> (case err of None \<Rightarrow> False | Some e \<Rightarrow> isAlreadyClosed ev e)
      then (True, None)
      else (case err of
              Some e \<Rightarrow>
                if terminated r then (True, None)
                else (True, Some (Wrap e ''serve failed to read from packer''))
            | None \<Rightarrow> (False, None)))"

text \<open>
  The body of the loop after the header \<open>hdr\<close> has been read; \<open>rd\<close> is the reader of
  the frame's body (\<open>ReadBodyInto\<close> and \<open>NextBodyReader\<close> read from it).
\<close>

definition serveFrame :: "env \<Rightarrow> rpc \<Rightarrow> Header \<Rightarrow> reader \<Rightarrow> serve \<times> rpc" where
  "serveFrame ev r hdr rd =
     (if Flag_Get (hFlag hdr) FlagEndErr then
        (case map_of (reqs r) (hReq hdr) of
           Some a \<Rightarrow>
             (case Request_abort (heap r a) of
                None \<Rightarrow> (Panicked ''invalid memory address or nil pointer dereference'', r)
              | Some req1 \<Rightarrow>
                  (let r1 = r\<lparr>heap := (heap r)(a := req1)\<rparr> in
                   case ReadFull rd (unat (hLen hdr)) of
                     Inl e \<Rightarrow>
                       (Return (Some (Wrap e
                          ''muxrpc: failed to get error body for closing of req: %d (len:%d)'')), r1)
                   | Inr body \<Rightarrow>
                       if \<not> isTrue body then
                         (case parseError ev body of
                            Inl e \<Rightarrow> (Return (Some (Wrap e ''error parsing error packet'')), r1)
                          | Inr ce \<Rightarrow> (Continue, closeStream r1 a (Some (CallErr ce))))
                       else (Continue, closeStream r1 a None)))
         | None \<Rightarrow> (Continue, r))
      else
        (case fetchRequest ev r hdr rd of
           (Inl e, r1) \<Rightarrow> (Return (Some (Wrap e ''muxrpc: error getting request'')), r1)
         | (Inr (a, isNew), r1) \<Rightarrow>
             if isNew then (Continue, r1)
             else
               (case inSink (heap r1 a) of
                  None \<Rightarrow>
                    (case byteSrc (heap r1 a) of
                       None \<Rightarrow> (Panicked ''invalid memory address or nil pointer dereference'', r1)
                     | Some bs \<Rightarrow>
                         (case ByteSource_consume bs (hLen hdr) rd of
                            (err, bs') \<Rightarrow>
                              (let r2 = r1\<lparr>heap := (heap r1)(a := (heap r1 a)\<lparr>byteSrc := Some bs'\<rparr>)\<rparr>
                               in case err of
                                    Some e \<Rightarrow>
                                      (Return (Some (Wrap e ''muxrpc: error pouring data to handler'')), r2)
                                  | None \<Rightarrow> (Continue, r2))))
                | Some p \<Rightarrow>
                    (case ReadFull rd (unat (hLen hdr)) of
                       Inl e \<Rightarrow>
                         (Return (Some (Wrap e
                            ''muxrpc: failed to get error body for closing of %d'')), r1)
                     | Inr body \<Rightarrow>
                         (case pipe_Pour p \<lparr>pFlag = hFlag hdr, pReq = hReq hdr, pBody = body\<rparr> of
                            None \<Rightarrow> (Blocked, r1)
                          | Some p' \<Rightarrow>
                              (Continue,
                               r1\<lparr>heap := (heap r1)(a := (heap r1 a)\<lparr>inSink := Some p'\<rparr>)\<rparr>))))))"

text \<open>The deferred function of \<open>Serve\<close> closes the packer.\<close>

definition serveDefer :: "rpc \<Rightarrow> rpc" where
  "serveDefer r = r\<lparr>pkr := snd (Packer_Close (pkr r))\<rparr>"

text \<open>
  What the transport delivers to the serve loop, in order: a failing \<open>NextHeader\<close>, or a
  header with the reader of its body.
\<close>

datatype rx = RxErr error | RxFrame Header reader

definition zeroHeader :: Header where
  "zeroHeader = \<lparr>hFlag = 0, hLen = 0, hReq = 0\<rparr>"

fun Serve :: "env \<Rightarrow> rpc \<Rightarrow> rx list \<Rightarrow> serve \<times> rpc" where
  "Serve ev r [] = (Waiting, r)"
| "Serve ev r (x # xs) =
     (let err = (case x of RxErr e \<Rightarrow> Some e | RxFrame h b \<Rightarrow> None);
          hdr = (case x of RxErr e \<Rightarrow> zeroHeader | RxFrame h b \<Rightarrow> h);
          rd = (case x of RxErr e \<Rightarrow> \<lparr>rdata = [], rerr = Some e\<rparr> | RxFrame h b \<Rightarrow> b)
      in case doRet ev r err of
           (True, e) \<Rightarrow> (Return e, serveDefer (snd (Terminate r)))
         | (False, e) \<Rightarrow>
             (case serveFrame ev r hdr rd of
                (Continue, r1) \<Rightarrow> Serve ev r1 xs
              | (Return e', r1) \<Rightarrow> (Return e', serveDefer r1)
              | (Panicked m, r1) \<Rightarrow> (Panicked m, serveDefer r1)
              | (s, r1) \<Rightarrow> (s, r1)))"

section \<open>The older session\<close>

text \<open>
  The file \<open>rpc.go\<close> holds two versions of the session. The definitions above follow
  the newer one. The older one builds every request on a \<open>luigi\<close> pipe, its streams
  declare no capabilities, and its buffer size is another constant. Its \<open>Do\<close>,
  \<open>ParseRequest\<close> and call constructors are embedded here under the prefix \<open>legacy\<close>;
  \<open>lStreamReq\<close> is the request id held by the request's stream and the two functions of
  \<open>encoding/json\<close> are parameters.
\<close>

definition legacy_bufSize :: nat where
  "legacy_bufSize = 5"

record legacy_Request =
  lType :: string
  lStreamReq :: int32
  lIn :: "pipe option"
  lMethod :: "string list"
  lArgs :: "string list"
  lTipe :: "string option"
  lPkt :: "Packet option"

record legacy_rpc =
  lpkr :: Packer
  lheap :: "addr \<Rightarrow> legacy_Request"
  lfresh :: addr
  lreqs :: "(int32 \<times> addr) list"
  lhighest :: int32
  lterminated :: bool

definition legacy_zeroRequest :: legacy_Request where
  "legacy_zeroRequest =
     \<lparr>lType = [], lStreamReq = 0, lIn = None, lMethod = [], lArgs = [], lTipe = None,
      lPkt = None\<rparr>"

definition legacy_Handle :: "Packer \<Rightarrow> legacy_rpc" where
  "legacy_Handle p =
     \<lparr>lpkr = p, lheap = (\<lambda>a. legacy_zeroRequest), lfresh = 0, lreqs = [], lhighest = 0,
      lterminated = False\<rparr>"

definition legacy_Do ::
  "(legacy_Request \<Rightarrow> error + string) \<Rightarrow> legacy_rpc \<Rightarrow> addr \<Rightarrow> error option \<times> legacy_rpc" where
  "legacy_Do marshal r a =
     (let req = lheap r a;
          flag = Flag_Set (Flag_Set 0 FlagJSON) (CallType_Flags (lType req));
          m = marshal req;
          body = (case m of Inl e \<Rightarrow> [] | Inr b \<Rightarrow> b);
          pkt = \<lparr>pFlag = flag, pReq = lhighest r + 1, pBody = body\<rparr>;
          r1 = r\<lparr>lhighest := pReq pkt, lreqs := AList.update (pReq pkt) a (lreqs r),
                 lheap := (lheap r)(a := req\<lparr>lStreamReq := pReq pkt, lPkt := Some pkt\<rparr>)\<rparr>
      in case m of
           Inl e \<Rightarrow> (Some e, r1)
         | Inr b \<Rightarrow>
             (case Packer_Pour (lpkr r1) pkt of
                Inl e \<Rightarrow> (Some e, r1)
              | Inr p \<Rightarrow> (None, r1\<lparr>lpkr := p\<rparr>)))"

definition legacy_startCall ::
  "(legacy_Request \<Rightarrow> error + string) \<Rightarrow> legacy_rpc \<Rightarrow> legacy_Request
     \<Rightarrow> (error + addr) \<times> legacy_rpc" where
  "legacy_startCall marshal r req =
     (let a = lfresh r;
          r1 = r\<lparr>lheap := (lheap r)(a := req), lfresh := Suc a\<rparr>
      in case legacy_Do marshal r1 a of
           (Some e, r2) \<Rightarrow> (Inl (Wrap e ''error sending request''), r2)
         | (None, r2) \<Rightarrow> (Inr a, r2))"

definition legacy_Async ::
  "(legacy_Request \<Rightarrow> error + string) \<Rightarrow> legacy_rpc \<Rightarrow> string option \<Rightarrow> string list
     \<Rightarrow> string list \<Rightarrow> (error + addr) \<times> legacy_rpc" where
  "legacy_Async marshal r tp method args =
     legacy_startCall marshal r
       (legacy_zeroRequest\<lparr>lType := ''async'', lStreamReq := 0,
          lIn := Some (NewPipe legacy_bufSize), lMethod := method, lArgs := args, lTipe := tp\<rparr>)"

definition legacy_Source ::
  "(legacy_Request \<Rightarrow> error + string) \<Rightarrow> legacy_rpc \<Rightarrow> string option \<Rightarrow> string list
     \<Rightarrow> string list \<Rightarrow> (error + addr) \<times> legacy_rpc" where
  "legacy_Source marshal r tp method args =
     legacy_startCall marshal r
       (legacy_zeroRequest\<lparr>lType := ''source'', lStreamReq := 0,
          lIn := Some (NewPipe legacy_bufSize), lMethod := method, lArgs := args, lTipe := tp\<rparr>)"

definition legacy_Sink ::
  "(legacy_Request \<Rightarrow> error + string) \<Rightarrow> legacy_rpc \<Rightarrow> string list
     \<Rightarrow> string list \<Rightarrow> (error + addr) \<times> legacy_rpc" where
  "legacy_Sink marshal r method args =
     legacy_startCall marshal r
       (legacy_zeroRequest\<lparr>lType := ''sink'', lStreamReq := 0,
          lIn := Some (NewPipe legacy_bufSize), lMethod := method, lArgs := args\<rparr>)"

definition legacy_Duplex ::
  "(legacy_Request \<Rightarrow> error + string) \<Rightarrow> legacy_rpc \<Rightarrow> string list
     \<Rightarrow> string list \<Rightarrow> (error + addr) \<times> legacy_rpc" where
  "legacy_Duplex marshal r method args =
     legacy_startCall marshal r
       (legacy_zeroRequest\<lparr>lType := ''duplex'', lStreamReq := 0,
          lIn := Some (NewPipe legacy_bufSize), lMethod := method, lArgs := args\<rparr>)"

definition legacy_ParseRequest ::
  "(string \<Rightarrow> error + legacy_Request) \<Rightarrow> legacy_rpc \<Rightarrow> Packet \<Rightarrow> error + legacy_Request" where
  "legacy_ParseRequest unmarshal r pkt =
     (if \<not> Flag_Get (pFlag pkt) FlagJSON then Inl (New ''expected JSON flag'')
      else if 0 \<le> sint (pReq pkt) then Inl (New ''expected negative request id'')
      else
        (case unmarshal (pBody pkt) of
           Inl e \<Rightarrow> Inl (Wrap e ''error decoding packet'')
         | Inr req \<Rightarrow>
             Inr (req\<lparr>lPkt := Some pkt, lStreamReq := pReq pkt,
                       lIn := Some (NewPipe legacy_bufSize)\<rparr>)))"

section \<open>Example values\<close>

text \<open>
  An environment for concrete runs. Its JSON functions know the bodies used below: the
  initiation body of a \<open>whoami\<close> source call and one error body; every other text is
  refused the way \<open>encoding/json\<close> refuses text that is not the JSON it expects.
\<close>

definition whoamiSourceBody :: string where
  \<open>whoamiSourceBody = ''{"name":["whoami"],"type":"source","args":[]}''\<close>

definition boomErrorBody :: string where
  \<open>boomErrorBody = ''{"name":"Error","message":"boom","stack":""}''\<close>

definition exampleEnv :: env where
  "exampleEnv =
     \<lparr>jsonMarshalArgs = (\<lambda>args. Inl (New ''json: unsupported type'')),
      jsonMarshalRequest = (\<lambda>req. Inr ''{}''),
      jsonDecodeRequest = (\<lambda>rd.
         if rerr rd = None \<and> rdata rd = whoamiSourceBody
         then Inr \<lparr>jName = [''whoami''], jType = ''source'', jArgs = Some ''[]''\<rparr>
         else Inl (New ''invalid character'')),
      jsonUnmarshalCallError = (\<lambda>data.
         if data = boomErrorBody
         then Inr \<lparr>Name = ''Error'', Message = ''boom'', Stack = []\<rparr>
         else Inl (New ''json: cannot unmarshal'')),
      isAlreadyClosed = (\<lambda>e. e = IOError ''use of closed network connection'')\<rparr>"

definition bytesReader :: "string \<Rightarrow> reader" where
  "bytesReader b = \<lparr>rdata = b, rerr = None\<rparr>"

text \<open>A session with one outgoing async call, request id 1, its request at address 0.\<close>

definition oneCall :: rpc where
  "oneCall = snd (Async exampleEnv (handle NewPacker) None [''whoami''] [])"

text \<open>A session that has accepted one incoming source call, request id -1.\<close>

definition sourceCallHeader :: Header where
  "sourceCallHeader = \<lparr>hFlag = 10, hLen = 45, hReq = - 1\<rparr>"

definition oneIncoming :: rpc where
  "oneIncoming =
     snd (serveFrame exampleEnv (handle NewPacker) sourceCallHeader (bytesReader whoamiSourceBody))"

text \<open>\<open>n\<close> async calls without arguments, one after the other.\<close>

fun asyncCalls :: "env \<Rightarrow> nat \<Rightarrow> rpc \<Rightarrow> rpc" where
  "asyncCalls ev 0 r = r"
| "asyncCalls ev (Suc n) r = asyncCalls ev n (snd (Async ev r None [''whoami''] []))"

section \<open>The JSON text of a \<open>CallError\<close>\<close>

text \<open>
  \<open>CallError\<close> values cross the wire as JSON written by \<open>json.Marshal\<close> and read by
  \<open>json.Unmarshal\<close>, both of Go's standard library and not part of the repository. The
  definitions of this section follow the documented behaviour of that library, for the
  struct \<open>CallError\<close> and its tags \<open>name\<close>, \<open>message\<close> and \<open>stack\<close>.

  Writing: the three fields in the order of the struct, each a JSON string. In a string
  the bytes below 0x20 and the characters \<open>"\<close>, \<open>\\<close>, \<open><\<close>, \<open>>\<close> and \<open>&\<close> are
  escaped (\<open>\n\<close>, \<open>\r\<close>, \<open>\t\<close>, \<open>\"\<close>, \<open>\\\<close>, otherwise \<open>\u00XX\<close>), U+2028 and
  U+2029 are written \<open>\u2028\<close> and \<open>\u2029\<close>, every other valid UTF-8 sequence is
  copied, and every byte that does not start a valid UTF-8 sequence is replaced by
  \<open>\ufffd\<close> ("coerced to valid UTF-8, replacing invalid bytes with the Unicode
  replacement rune").

  \<open>hexDigit\<close> and \<open>hexVal\<close> write and read one hexadecimal digit, \<open>getu4\<close> reads the
  four digits of a \<open>\u\<close> escape.
\<close>

definition hexDigit :: "nat \<Rightarrow> char" where
  "hexDigit n = (if n < 10 then char_of (48 + n) else char_of (87 + n))"

definition hexVal :: "char \<Rightarrow> nat option" where
  "hexVal c =
     (let x = of_char c :: nat in
      if 48 \<le> x \<and> x \<le> 57 then Some (x - 48)
      else if 97 \<le> x \<and> x \<le> 102 then Some (x - 87)
      else if 65 \<le> x \<and> x \<le> 70 then Some (x - 55)
      else None)"

definition getu4 :: "char \<Rightarrow> char \<Rightarrow> char \<Rightarrow> char \<Rightarrow> nat option" where
  "getu4 a b c d =
     (case (hexVal a, hexVal b, hexVal c, hexVal d) of
        (Some w, Some x, Some y, Some z) \<Rightarrow> Some (((w * 16 + x) * 16 + y) * 16 + z)
      | _ \<Rightarrow> None)"

text \<open>\<open>utf8.EncodeRune\<close>: the UTF-8 bytes of a code point.\<close>

definition EncodeRune :: "nat \<Rightarrow> string" where
  "EncodeRune r =
     (if r < 0x80 then [char_of r]
      else if r < 0x800 then [char_of (0xC0 + r div 64), char_of (0x80 + r mod 64)]
      else if (0xD800 \<le> r \<and> r \<le> 0xDFFF) \<or> 0x10FFFF < r
        then [CHR 0xEF, CHR 0xBF, CHR 0xBD]
      else if r < 0x10000
        then [char_of (0xE0 + r div 4096), char_of (0x80 + r div 64 mod 64),
              char_of (0x80 + r mod 64)]
      else [char_of (0xF0 + r div 262144), char_of (0x80 + r div 4096 mod 64),
            char_of (0x80 + r div 64 mod 64), char_of (0x80 + r mod 64)])"

text \<open>
  \<open>utf8.DecodeRune\<close>, as far as the JSON code uses it: \<open>utf8Size s\<close> is the length of
  the valid UTF-8 sequence at the front of \<open>s\<close>, and 0 when there is none (the decoder
  then returns \<open>RuneError\<close> with size 1). \<open>validUTF8\<close> is \<open>utf8.ValidString\<close>.
\<close>

definition byteIn :: "char \<Rightarrow> nat \<Rightarrow> nat \<Rightarrow> bool" where
  "byteIn c lo hi = (lo \<le> (of_char c :: nat) \<and> (of_char c :: nat) \<le> hi)"

definition utf8Size :: "string \<Rightarrow> nat" where
  "utf8Size s =
     (case s of
        [] \<Rightarrow> 0
      | a # t \<Rightarrow>
          let x = of_char a :: nat in
          if x < 0x80 then 1
          else if 0xC2 \<le> x \<and> x \<le> 0xDF then
            (case t of b # u \<Rightarrow> if byteIn b 0x80 0xBF then 2 else 0 | [] \<Rightarrow> 0)
          else if 0xE0 \<le> x \<and> x \<le> 0xEF then
            (case t of
               b # c # u \<Rightarrow>
                 if byteIn b (if x = 0xE0 then 0xA0 else 0x80) (if x = 0xED then 0x9F else 0xBF)
                    \<and> byteIn c 0x80 0xBF
                 then 3 else 0
             | _ \<Rightarrow> 0)
          else if 0xF0 \<le> x \<and> x \<le> 0xF4 then
            (case t of
               b # c # d # u \<Rightarrow>
                 if byteIn b (if x = 0xF0 then 0x90 else 0x80) (if x = 0xF4 then 0x8F else 0xBF)
                    \<and> byteIn c 0x80 0xBF \<and> byteIn d 0x80 0xBF
                 then 4 else 0
             | _ \<Rightarrow> 0)
          else 0)"

function validUTF8 :: "string \<Rightarrow> bool" where
  "validUTF8 [] = True"
| "validUTF8 (a # t) = (utf8Size (a # t) \<noteq> 0 \<and> validUTF8 (drop (utf8Size (a # t) - 1) t))"
  by pat_completeness auto
termination
  by (relation "measure length") auto

text \<open>
  The string encoder of \<open>json.Marshal\<close>: \<open>htmlSafe\<close> is its table \<open>htmlSafeSet\<close>,
  \<open>escapeByte\<close> the escape of one ASCII byte outside the table, \<open>escapeString\<close> the loop
  over the string, \<open>quoteString\<close> adds the quotes.
\<close>

definition htmlSafe :: "char \<Rightarrow> bool" where
  "htmlSafe c =
     (let x = of_char c :: nat in
      0x20 \<le> x \<and> x < 0x80 \<and> x \<noteq> 0x22 \<and> x \<noteq> 0x26 \<and> x \<noteq> 0x3C \<and> x \<noteq> 0x3E \<and> x \<noteq> 0x5C)"

definition escapeByte :: "char \<Rightarrow> string" where
  "escapeByte c =
     (let x = of_char c :: nat in
      if x = 0x5C \<or> x = 0x22 then [CHR 0x5C, c]
      else if x = 0x0A then [CHR 0x5C, CHR ''n'']
      else if x = 0x0D then [CHR 0x5C, CHR ''r'']
      else if x = 0x09 then [CHR 0x5C, CHR ''t'']
      else [CHR 0x5C, CHR ''u'', CHR ''0'', CHR ''0'', hexDigit (x div 16), hexDigit (x mod 16)])"

function escapeString :: "string \<Rightarrow> string" where
  "escapeString [] = []"
| "escapeString (a # t) =
     (if (of_char a :: nat) < 0x80 then
        (if htmlSafe a then [a] else escapeByte a) @ escapeString t
      else if utf8Size (a # t) = 0 then
        [CHR 0x5C, CHR ''u'', CHR ''f'', CHR ''f'', CHR ''f'', CHR ''d''] @ escapeString t
      else if take 3 (a # t) = [CHR 0xE2, CHR 0x80, CHR 0xA8] then
        [CHR 0x5C, CHR ''u'', CHR ''2'', CHR ''0'', CHR ''2'', CHR ''8''] @ escapeString (drop 2 t)
      else if take 3 (a # t) = [CHR 0xE2, CHR 0x80, CHR 0xA9] then
        [CHR 0x5C, CHR ''u'', CHR ''2'', CHR ''0'', CHR ''2'', CHR ''9''] @ escapeString (drop 2 t)
      else take (utf8Size (a # t)) (a # t) @ escapeString (drop (utf8Size (a # t) - 1) t))"
  by pat_completeness auto
termination
  by (relation "measure length") auto

definition quoteString :: "string \<Rightarrow> string" where
  "quoteString s = [CHR 0x22] @ escapeString s @ [CHR 0x22]"

text \<open>\<open>json.Marshal\<close> of a \<open>CallError\<close>.\<close>

definition marshalCallError :: "CallError \<Rightarrow> string" where
  \<open>marshalCallError e =
     ''{"name":'' @ quoteString (Name e) @ '',"message":'' @ quoteString (Message e)
       @ '',"stack":'' @ quoteString (Stack e) @ ''}''\<close>

text \<open>
  Reading. The model of \<open>json.Unmarshal\<close> into a \<open>CallError\<close> covers the texts that
  are one JSON object whose members all have string values, with white space allowed
  between the tokens; this is the shape of every text \<open>json.Marshal\<close> writes for a
  \<open>CallError\<close>. Every other text is refused by the model (the library accepts some of
  them, such as \<open>null\<close> or members with values of other kinds under unknown keys).

  \<open>tok\<close> splits the text into tokens; its first argument is \<open>None\<close> between tokens
  and holds the bytes decoded so far inside a string literal. Inside a string it follows
  \<open>unquote\<close>: the escapes \<open>\"\<close>, \<open>\\\<close>, \<open>\/\<close>, \<open>\b\<close>, \<open>\f\<close>, \<open>\n\<close>, \<open>\r\<close>, \<open>\t\<close> and
  \<open>\uXXXX\<close> (a surrogate pair gives one code point, a lone surrogate the replacement
  character) are decoded, a raw control byte or a bad escape is an error, valid UTF-8
  is copied and a byte that is not valid UTF-8 becomes the replacement character.
\<close>

datatype token = LBrace | RBrace | Colon | Comma | Str string

definition replacementChar :: string where
  "replacementChar = [CHR 0xEF, CHR 0xBF, CHR 0xBD]"

definition isSpace :: "char \<Rightarrow> bool" where
  "isSpace c = (let x = of_char c :: nat in x = 0x20 \<or> x = 0x09 \<or> x = 0x0D \<or> x = 0x0A)"

definition unescapeChar :: "char \<Rightarrow> char option" where
  "unescapeChar e =
     (let x = of_char e :: nat in
      if x = 0x22 \<or> x = 0x5C \<or> x = 0x2F then Some e
      else if e = CHR ''b'' then Some (CHR 0x08)
      else if e = CHR ''f'' then Some (CHR 0x0C)
      else if e = CHR ''n'' then Some (CHR 0x0A)
      else if e = CHR ''r'' then Some (CHR 0x0D)
      else if e = CHR ''t'' then Some (CHR 0x09)
      else None)"

definition decodeSurrogates :: "nat \<Rightarrow> nat option \<Rightarrow> nat option" where
  "decodeSurrogates r1 r2 =
     (case r2 of
        None \<Rightarrow> None
      | Some r2' \<Rightarrow>
          if 0xD800 \<le> r1 \<and> r1 < 0xDC00 \<and> 0xDC00 \<le> r2' \<and> r2' < 0xE000
          then Some ((r1 - 0xD800) * 1024 + (r2' - 0xDC00) + 0x10000)
          else None)"

definition nextU4 :: "string \<Rightarrow> nat option" where
  "nextU4 s =
     (case s of
        b # u # g1 # g2 # g3 # g4 # r \<Rightarrow>
          if b = CHR 0x5C \<and> u = CHR ''u'' then getu4 g1 g2 g3 g4 else None
      | _ \<Rightarrow> None)"

function tok :: "string option \<Rightarrow> string \<Rightarrow> token list option" where
  "tok None [] = Some []"
| "tok (Some acc) [] = None"
| "tok None (c # s) =
     (if isSpace c then tok None s
      else if c = CHR ''{'' then map_option ((#) LBrace) (tok None s)
      else if c = CHR ''}'' then map_option ((#) RBrace) (tok None s)
      else if c = CHR '':'' then map_option ((#) Colon) (tok None s)
      else if c = CHR '','' then map_option ((#) Comma) (tok None s)
      else if c = CHR 0x22 then tok (Some []) s
      else None)"
| "tok (Some acc) (c # s) =
     (if c = CHR 0x22 then map_option ((#) (Str acc)) (tok None s)
      else if c = CHR 0x5C then
        (case s of
           [] \<Rightarrow> None
         | e # s1 \<Rightarrow>
             if e = CHR ''u'' then
               (case s1 of
                  h1 # h2 # h3 # h4 # s2 \<Rightarrow>
                    (case getu4 h1 h2 h3 h4 of
                       None \<Rightarrow> None
                     | Some r \<Rightarrow>
                         if 0xD800 \<le> r \<and> r < 0xE000 then
                           (case decodeSurrogates r (nextU4 s2) of
                              Some dec \<Rightarrow> tok (Some (acc @ EncodeRune dec)) (drop 6 s2)
                            | None \<Rightarrow> tok (Some (acc @ replacementChar)) s2)
                         else tok (Some (acc @ EncodeRune r)) s2)
                | _ \<Rightarrow> None)
             else
               (case unescapeChar e of
                  None \<Rightarrow> None
                | Some d \<Rightarrow> tok (Some (acc @ [d])) s1))
      else if (of_char c :: nat) < 0x20 then None
      else if (of_char c :: nat) < 0x80 then tok (Some (acc @ [c])) s
      else if utf8Size (c # s) = 0 then tok (Some (acc @ replacementChar)) s
      else tok (Some (acc @ take (utf8Size (c # s)) (c # s))) (drop (utf8Size (c # s) - 1) s))"
  by pat_completeness auto
termination
  by (relation "measure (\<lambda>(m, i). length i)") auto

text \<open>
  A key selects the field whose tag it equals, letter case ignored (for ASCII letters;
  the two non-ASCII characters the library also folds to \<open>k\<close> and \<open>s\<close> are left out);
  members under other keys are skipped, and a later member overrides an earlier one.
\<close>

definition asciiLower :: "char \<Rightarrow> char" where
  "asciiLower c =
     (if 65 \<le> (of_char c :: nat) \<and> (of_char c :: nat) \<le> 90 then char_of (of_char c + 32 :: nat) else c)"

definition setField :: "string \<Rightarrow> string \<Rightarrow> CallError \<Rightarrow> CallError" where
  "setField k v e =
     (let k' = map asciiLower k in
      if k' = ''name'' then e\<lparr>Name := v\<rparr>
      else if k' = ''message'' then e\<lparr>Message := v\<rparr>
      else if k' = ''stack'' then e\<lparr>Stack := v\<rparr>
      else e)"

fun members :: "CallError \<Rightarrow> token list \<Rightarrow> CallError option" where
  "members e [Str k, Colon, Str v, RBrace] = Some (setField k v e)"
| "members e (Str k # Colon # Str v # Comma # ts) = members (setField k v e) ts"
| "members e ts = None"

definition decodeObject :: "token list \<Rightarrow> CallError option" where
  "decodeObject ts =
     (case ts of
        LBrace # ms \<Rightarrow>
          if ms = [RBrace] then Some \<lparr>Name = [], Message = [], Stack = []\<rparr>
          else members \<lparr>Name = [], Message = [], Stack = []\<rparr> ms
      | _ \<Rightarrow> None)"

definition unmarshalCallError :: "string \<Rightarrow> error + CallError" where
  "unmarshalCallError data =
     (case tok None data of
        None \<Rightarrow> Inl (New ''json: invalid character'')
      | Some ts \<Rightarrow>
          (case decodeObject ts of
             None \<Rightarrow> Inl (New ''json: cannot unmarshal into Go value of type muxrpc.CallError'')
           | Some e \<Rightarrow> Inr e))"

text \<open>The example environment with this reader for error bodies.\<close>

definition jsonEnv :: env where
  "jsonEnv = exampleEnv\<lparr>jsonUnmarshalCallError := unmarshalCallError\<rparr>"

text \<open>
  A run of a frame buffer: store the body \<open>hello\<close>, take its reader and read two bytes
  of it, ask for the next frame while none is stored, store the body \<open>abc\<close>.
\<close>

definition fb1 :: frameBuffer where
  "fb1 = snd (copyBody newFrameBuffer 5 (bytesReader ''hello''))"

definition fb2 :: frameBuffer where
  "fb2 = snd (getNextFrameReader fb1)"

definition fb3 :: frameBuffer where
  "fb3 = snd (snd (countingReader_Read \<lparr>limN = 5\<rparr> fb2 2))"

definition fb4 :: frameBuffer where
  "fb4 = snd (getNextFrameReader fb3)"

definition fb5 :: frameBuffer where
  "fb5 = snd (copyBody fb4 3 (bytesReader ''abc''))"

section \<open>Request ids\<close>

lemma sint_succ:
  "sint (w :: int32) < 2147483647 \<Longrightarrow> sint (w + 1) = sint w + 1"
proof -
  assume a: "sint w < 2147483647"
  have "- 2147483648 \<le> sint w"
    using sint_ge [of w] by simp
  with a show ?thesis
    by (simp add: sint_word_ariths signed_take_bit_int_eq_self)
qed

lemma highest_Do: "highest (snd (Do ev r a)) = highest r + 1"
  by (simp add: Do_def Let_def split: sum.splits)

lemma highest_startCall: "highest (snd (startCall ev r req)) = highest r + 1"
proof -
  have "highest (snd (alloc r req)) = highest r"
    by (simp add: alloc_def)
  moreover have "snd (startCall ev r req) = snd (Do ev (snd (alloc r req)) (fst (alloc r req)))"
    by (simp add: startCall_def split: prod.splits option.splits)
  ultimately show ?thesis
    by (simp add: highest_Do)
qed

lemma highest_Async_noargs: "highest (snd (Async ev r tp m [])) = highest r + 1"
  by (simp add: Async_def marshalCallArgs_def highest_startCall)

lemma highest_asyncCalls: "highest (asyncCalls ev n r) = highest r + of_nat n"
  by (induction n arbitrary: r) (simp_all add: highest_Async_noargs)

lemma highest_handle: "highest (handle p) = 0"
  by (simp add: handle_def)

text \<open>
  Claim C1, as amended. While the counter \<open>highest\<close> is non-negative and below
  \<open>2^31 - 1\<close>, a call of \<open>Do\<close> (in the newer and in the older session alike) increments
  \<open>highest\<close> by one, so the id it allocates is positive and strictly greater than the one
  before; the request is stored in \<open>reqs\<close> under that id, the id is stamped on the
  request's stream (and, in the newer session, on the request), and the initiation packet,
  when one is poured, carries it. The counter is a 32-bit signed integer, and no bound on
  it is checked.
\<close>

theorem Do_allocates_next_id:
  assumes "0 \<le> sint (highest r)" and "sint (highest r) < 2147483647"
    and "0 \<le> sint (lhighest lr)" and "sint (lhighest lr) < 2147483647"
  shows "(case Do ev r a of (err, r') \<Rightarrow>
            sint (highest r') = sint (highest r) + 1 \<and> 0 < sint (highest r') \<and>
            sint (highest r) < sint (highest r') \<and>
            map_of (reqs r') (highest r') = Some a \<and>
            sReq (Stream (heap r' a)) = highest r' \<and> reqId (heap r' a) = highest r' \<and>
            (err = None \<longrightarrow>
               map pReq (sent (pkr r')) = map pReq (sent (pkr r)) @ [highest r']))
       \<and> (case legacy_Do marshal lr a of (err, lr') \<Rightarrow>
            sint (lhighest lr') = sint (lhighest lr) + 1 \<and> 0 < sint (lhighest lr') \<and>
            sint (lhighest lr) < sint (lhighest lr') \<and>
            map_of (lreqs lr') (lhighest lr') = Some a \<and>
            lStreamReq (lheap lr' a) = lhighest lr' \<and>
            (err = None \<longrightarrow>
               map pReq (sent (lpkr lr')) = map pReq (sent (lpkr lr)) @ [lhighest lr']))"
proof -
  have s: "sint (highest r + 1) = sint (highest r) + 1"
    using assms(2) by (rule sint_succ)
  have ls: "sint (lhighest lr + 1) = sint (lhighest lr) + 1"
    using assms(4) by (rule sint_succ)
  have new: "case Do ev r a of (err, r') \<Rightarrow>
            sint (highest r') = sint (highest r) + 1 \<and> 0 < sint (highest r') \<and>
            sint (highest r) < sint (highest r') \<and>
            map_of (reqs r') (highest r') = Some a \<and>
            sReq (Stream (heap r' a)) = highest r' \<and> reqId (heap r' a) = highest r' \<and>
            (err = None \<longrightarrow>
               map pReq (sent (pkr r')) = map pReq (sent (pkr r)) @ [highest r'])"
    using assms(1) s
    by (simp add: Do_def Let_def Packer_Pour_def WithReq_def WithType_def update_conv'
        split: sum.splits)
  have old: "case legacy_Do marshal lr a of (err, lr') \<Rightarrow>
            sint (lhighest lr') = sint (lhighest lr) + 1 \<and> 0 < sint (lhighest lr') \<and>
            sint (lhighest lr) < sint (lhighest lr') \<and>
            map_of (lreqs lr') (lhighest lr') = Some a \<and>
            lStreamReq (lheap lr' a) = lhighest lr' \<and>
            (err = None \<longrightarrow>
               map pReq (sent (lpkr lr')) = map pReq (sent (lpkr lr)) @ [lhighest lr'])"
    using assms(3) ls
    by (simp add: legacy_Do_def Let_def Packer_Pour_def update_conv' split: sum.splits)
  from new old show ?thesis by simp
qed

text \<open>The first call of a fresh session, in both versions, gets id 1.\<close>

theorem Do_allocates_next_id_witness:
  "(case Do exampleEnv (handle NewPacker) 0 of (err, r') \<Rightarrow>
      sint (highest r') = 1 \<and> map_of (reqs r') 1 = Some 0 \<and> sReq (Stream (heap r' 0)) = 1
      \<and> err = None \<and> map pReq (sent (pkr r')) = [1])
   \<and> (case legacy_Do (\<lambda>req. Inr ''{}'') (legacy_Handle NewPacker) 0 of (err, lr') \<Rightarrow>
      sint (lhighest lr') = 1 \<and> map_of (lreqs lr') 1 = Some 0 \<and> lStreamReq (lheap lr' 0) = 1)"
  using Do_allocates_next_id [where r = "handle NewPacker" and lr = "legacy_Handle NewPacker"
      and ev = exampleEnv and a = 0 and marshal = "\<lambda>req. Inr ''{}''"]
  by (simp add: handle_def legacy_Handle_def NewPacker_def Do_def legacy_Do_def exampleEnv_def
      Let_def Packer_Pour_def zeroRequest_def legacy_zeroRequest_def split: prod.splits)

text \<open>
  Claim C1 as stated fails: after 2147483647 calls in one session the last id is
  2147483647, and the id the next call allocates is -2147483648, neither positive nor
  greater than the one before.
\<close>

theorem Do_id_wraps_negative:
  "sint (highest (asyncCalls exampleEnv 2147483647 (handle NewPacker))) = 2147483647
   \<and> sint (highest (asyncCalls exampleEnv 2147483648 (handle NewPacker))) = - 2147483648"
  by (simp add: highest_asyncCalls highest_handle)

section \<open>Facts about the helpers and the example sessions\<close>

lemma isTrue_iff: "isTrue data \<longleftrightarrow> data = ''true''"
proof
  assume t: "isTrue data"
  then have "length data = 4"
    by (simp add: isTrue_def)
  then obtain a b c d where "data = [a, b, c, d]"
    by (auto simp add: length_Suc_conv numeral_eq_Suc)
  with t show "data = ''true''"
    by (simp add: isTrue_def)
next
  assume "data = ''true''"
  then show "isTrue data"
    by (simp add: isTrue_def)
qed

lemma CloseWithError_twice:
  "Request_CloseWithError c (Request_CloseWithError c req) = Request_CloseWithError c req"
  by (simp add: Request_CloseWithError_def)

lemma closeAll_apply:
  "closeAll e as h a =
     (if a \<in> set as then Request_CloseWithError (Some e) (h a) else h a)"
proof (induction as arbitrary: h)
  case Nil
  show ?case by (simp add: closeAll_def)
next
  case (Cons x xs)
  have "closeAll e (x # xs) h a
          = closeAll e xs (h(x := Request_CloseWithError (Some e) (h x))) a"
    by (simp add: closeAll_def)
  also have "\<dots> = (if a \<in> set (x # xs) then Request_CloseWithError (Some e) (h a) else h a)"
    by (simp add: Cons.IH CloseWithError_twice)
  finally show ?case .
qed

lemma startCall_inSink:
  "startCall ev r req = (Inr a, r') \<Longrightarrow> inSink (heap r' a) = inSink req"
  by (auto simp add: startCall_def alloc_def Do_def Let_def
      split: prod.splits option.splits sum.splits if_splits)

lemma legacy_startCall_lIn:
  "legacy_startCall marshal r req = (Inr a, r') \<Longrightarrow> lIn (lheap r' a) = lIn req"
  by (auto simp add: legacy_startCall_def legacy_Do_def Let_def
      split: prod.splits option.splits sum.splits if_splits)

lemma oneCall_reqs: "reqs oneCall = [(1, 0)]"
  by (simp add: oneCall_def Async_def marshalCallArgs_def startCall_def alloc_def Do_def Let_def
      handle_def NewPacker_def Packer_Pour_def exampleEnv_def zeroRequest_def)

lemma oneCall_heap:
  "heap oneCall 0 =
     \<lparr>Type = ''async'',
      Stream = \<lparr>sReq = 1, inCap = streamCapOnce, outCap = streamCapNone, sTipe = None,
                sClosed = False, sErr = None\<rparr>,
      inSink = Some \<lparr>pcap = 150, queue = []\<rparr>, byteSrc = None, Method = [''whoami''],
      RawArgs = Some ''[]'', tipe = None, reqId = 1, abort = Some Noop,
      ctxCancelled = False\<rparr>"
  by (simp add: oneCall_def Async_def marshalCallArgs_def startCall_def alloc_def Do_def Let_def
      handle_def NewPacker_def Packer_Pour_def exampleEnv_def zeroRequest_def newStream_def
      WithReq_def WithType_def NewPipe_def bufSize_def)

lemma oneIncoming_reqs: "reqs oneIncoming = [(- 1, 0)]"
  by (simp add: oneIncoming_def serveFrame_def fetchRequest_def ParseRequest_def
      sourceCallHeader_def bytesReader_def exampleEnv_def handle_def alloc_def Let_def
      Flag_Get_def FlagEndErr_def FlagJSON_def FlagStream_def)

lemma oneIncoming_heap:
  "heap oneIncoming 0 =
     \<lparr>Type = ''source'',
      Stream = \<lparr>sReq = - 1, inCap = streamCapNone, outCap = streamCapMultiple, sTipe = None,
                sClosed = False, sErr = None\<rparr>,
      inSink = Some \<lparr>pcap = 150, queue = []\<rparr>, byteSrc = None, Method = [''whoami''],
      RawArgs = Some ''[]'', tipe = None, reqId = - 1, abort = Some CancelFunc,
      ctxCancelled = False\<rparr>"
  by (simp add: oneIncoming_def serveFrame_def fetchRequest_def ParseRequest_def
      sourceCallHeader_def bytesReader_def exampleEnv_def handle_def alloc_def Let_def
      Flag_Get_def FlagEndErr_def FlagJSON_def FlagStream_def zeroRequest_def newStream_def
      NewPipe_def bufSize_def)

text \<open>
  A request put into \<open>reqs\<close> by \<open>fetchRequest\<close> or by \<open>Do\<close> carries the id it is stored
  under, and its \<open>abort\<close> is set.
\<close>

lemma ParseRequest_reqId: "ParseRequest ev r hdr rd = Inr req \<Longrightarrow> reqId req = hReq hdr"
  by (auto simp add: ParseRequest_def Let_def zeroRequest_def split: if_splits sum.splits)

lemma fetchRequest_new_request:
  assumes "fetchRequest ev r hdr rd = (Inr (a, True), r')"
  shows "map_of (reqs r') (hReq hdr) = Some a \<and> reqId (heap r' a) = hReq hdr
         \<and> abort (heap r' a) = Some CancelFunc"
proof (cases "ParseRequest ev r hdr rd")
  case (Inl e)
  with assms show ?thesis
    by (simp add: fetchRequest_def split: option.splits)
next
  case (Inr req)
  then have "reqId req = hReq hdr"
    by (rule ParseRequest_reqId)
  with assms Inr show ?thesis
    by (auto simp add: fetchRequest_def alloc_def update_conv' split: option.splits)
qed

lemma Do_request:
  assumes "Do ev r a = (e, r')"
  shows "map_of (reqs r') (highest r') = Some a \<and> reqId (heap r' a) = highest r'
         \<and> abort (heap r' a) \<noteq> None"
  using assms
  by (auto simp add: Do_def Let_def update_conv' split: sum.splits if_splits)

section \<open>Incoming calls: \<open>ParseRequest\<close>\<close>

text \<open>
  Claim C4. For every initiation packet that passes the checks of the JSON flag and of
  the request id and whose body decodes, \<open>ParseRequest\<close> gives the new request's stream
  its capabilities from the call type and the stream flag: with the stream flag, type
  duplex gets input many and output many, source gets input none and output many, sink
  gets input many and output none; without the stream flag the type must be async (an
  empty type becomes async) and gets input none and output once. With any other type
  \<open>ParseRequest\<close> returns the error "unhandled request type" and no request.
\<close>

theorem ParseRequest_capabilities:
  assumes "Flag_Get (hFlag pkt) FlagJSON" and "sint (hReq pkt) < 0"
    and "jsonDecodeRequest ev rd = Inr j"
  shows "case ParseRequest ev r pkt rd of
           Inr req \<Rightarrow>
             Type req = (if jType j = [] then ''async'' else jType j) \<and>
             sReq (Stream req) = hReq pkt \<and>
             (if Flag_Get (hFlag pkt) FlagStream
              then (Type req = ''duplex'' \<and> inCap (Stream req) = streamCapMultiple
                      \<and> outCap (Stream req) = streamCapMultiple)
                 \<or> (Type req = ''source'' \<and> inCap (Stream req) = streamCapNone
                      \<and> outCap (Stream req) = streamCapMultiple)
                 \<or> (Type req = ''sink'' \<and> inCap (Stream req) = streamCapMultiple
                      \<and> outCap (Stream req) = streamCapNone)
              else Type req = ''async'' \<and> inCap (Stream req) = streamCapNone
                      \<and> outCap (Stream req) = streamCapOnce)
         | Inl e \<Rightarrow>
             e = Errorf ''unhandled request type: %q'' (jType j) \<and>
             (if Flag_Get (hFlag pkt) FlagStream
              then jType j \<noteq> ''duplex'' \<and> jType j \<noteq> ''source'' \<and> jType j \<noteq> ''sink''
              else jType j \<noteq> ''async'' \<and> jType j \<noteq> [])"
  using assms
  by (simp add: ParseRequest_def Let_def newStream_def zeroRequest_def)

text \<open>The initiation packet of a source call: input none, output many.\<close>

theorem ParseRequest_capabilities_witness:
  "case ParseRequest exampleEnv (handle NewPacker) sourceCallHeader
          (bytesReader whoamiSourceBody) of
     Inr req \<Rightarrow> Type req = ''source'' \<and> inCap (Stream req) = streamCapNone
                  \<and> outCap (Stream req) = streamCapMultiple
   | Inl e \<Rightarrow> False"
  using ParseRequest_capabilities [where pkt = sourceCallHeader and ev = exampleEnv
      and rd = "bytesReader whoamiSourceBody" and r = "handle NewPacker"
      and j = "\<lparr>jName = [''whoami''], jType = ''source'', jArgs = Some ''[]''\<rparr>"]
  by (auto simp add: sourceCallHeader_def exampleEnv_def bytesReader_def Flag_Get_def
      FlagJSON_def FlagStream_def split: sum.splits)

text \<open>
  Claim C5. \<open>ParseRequest\<close>, in the newer and in the older session, returns an error and
  no request for a packet without the JSON flag and for a packet whose request id is not
  negative; a request it returns comes from a packet with the JSON flag and a negative
  id. When \<open>fetchRequest\<close> meets such a packet under an unknown id the session is left as
  it was.
\<close>

theorem ParseRequest_rejects:
  "(\<not> Flag_Get (hFlag pkt) FlagJSON \<longrightarrow>
      ParseRequest ev r pkt rd = Inl (New ''expected JSON flag''))
   \<and> (Flag_Get (hFlag pkt) FlagJSON \<and> 0 \<le> sint (hReq pkt) \<longrightarrow>
      ParseRequest ev r pkt rd = Inl (New ''expected negative request id''))
   \<and> (\<forall>req. ParseRequest ev r pkt rd = Inr req \<longrightarrow>
      Flag_Get (hFlag pkt) FlagJSON \<and> sint (hReq pkt) < 0 \<and> reqId req = hReq pkt)
   \<and> ((\<not> Flag_Get (hFlag pkt) FlagJSON \<or> 0 \<le> sint (hReq pkt))
        \<and> map_of (reqs r) (hReq pkt) = None \<longrightarrow>
      snd (fetchRequest ev r pkt rd) = r \<and> (\<exists>e. fst (fetchRequest ev r pkt rd) = Inl e))
   \<and> (\<not> Flag_Get (pFlag p) FlagJSON \<longrightarrow>
      legacy_ParseRequest unmarshal lr p = Inl (New ''expected JSON flag''))
   \<and> (Flag_Get (pFlag p) FlagJSON \<and> 0 \<le> sint (pReq p) \<longrightarrow>
      legacy_ParseRequest unmarshal lr p = Inl (New ''expected negative request id''))
   \<and> (\<forall>req. legacy_ParseRequest unmarshal lr p = Inr req \<longrightarrow>
      Flag_Get (pFlag p) FlagJSON \<and> sint (pReq p) < 0)"
proof -
  have 1: "\<not> Flag_Get (hFlag pkt) FlagJSON \<longrightarrow>
      ParseRequest ev r pkt rd = Inl (New ''expected JSON flag'')"
    by (simp add: ParseRequest_def)
  have 2: "Flag_Get (hFlag pkt) FlagJSON \<and> 0 \<le> sint (hReq pkt) \<longrightarrow>
      ParseRequest ev r pkt rd = Inl (New ''expected negative request id'')"
    by (simp add: ParseRequest_def)
  have 3: "\<forall>req. ParseRequest ev r pkt rd = Inr req \<longrightarrow>
      Flag_Get (hFlag pkt) FlagJSON \<and> sint (hReq pkt) < 0 \<and> reqId req = hReq pkt"
    by (auto simp add: ParseRequest_def Let_def zeroRequest_def split: if_splits sum.splits)
  have 4: "(\<not> Flag_Get (hFlag pkt) FlagJSON \<or> 0 \<le> sint (hReq pkt))
        \<and> map_of (reqs r) (hReq pkt) = None \<longrightarrow>
      snd (fetchRequest ev r pkt rd) = r \<and> (\<exists>e. fst (fetchRequest ev r pkt rd) = Inl e)"
    using 1 2 by (auto simp add: fetchRequest_def)
  have 5: "\<not> Flag_Get (pFlag p) FlagJSON \<longrightarrow>
      legacy_ParseRequest unmarshal lr p = Inl (New ''expected JSON flag'')"
    by (simp add: legacy_ParseRequest_def)
  have 6: "Flag_Get (pFlag p) FlagJSON \<and> 0 \<le> sint (pReq p) \<longrightarrow>
      legacy_ParseRequest unmarshal lr p = Inl (New ''expected negative request id'')"
    by (simp add: legacy_ParseRequest_def)
  have 7: "\<forall>req. legacy_ParseRequest unmarshal lr p = Inr req \<longrightarrow>
      Flag_Get (pFlag p) FlagJSON \<and> sint (pReq p) < 0"
    by (auto simp add: legacy_ParseRequest_def split: if_splits sum.splits)
  from 1 2 3 4 5 6 7 show ?thesis by blast
qed

text \<open>A packet with id 1, a packet without the JSON flag, and a packet with id 0.\<close>

theorem ParseRequest_rejects_witness:
  "ParseRequest exampleEnv (handle NewPacker) \<lparr>hFlag = 2, hLen = 45, hReq = 1\<rparr>
       (bytesReader whoamiSourceBody) = Inl (New ''expected negative request id'')
   \<and> ParseRequest exampleEnv (handle NewPacker) \<lparr>hFlag = 8, hLen = 45, hReq = - 1\<rparr>
       (bytesReader whoamiSourceBody) = Inl (New ''expected JSON flag'')
   \<and> snd (fetchRequest exampleEnv (handle NewPacker) \<lparr>hFlag = 2, hLen = 45, hReq = 1\<rparr>
       (bytesReader whoamiSourceBody)) = handle NewPacker
   \<and> legacy_ParseRequest (\<lambda>b. Inr legacy_zeroRequest) (legacy_Handle NewPacker)
       \<lparr>pFlag = 2, pReq = 0, pBody = whoamiSourceBody\<rparr>
       = Inl (New ''expected negative request id'')"
  using ParseRequest_rejects [where pkt = "\<lparr>hFlag = 2, hLen = 45, hReq = 1\<rparr>"
      and ev = exampleEnv and r = "handle NewPacker" and rd = "bytesReader whoamiSourceBody"
      and p = "\<lparr>pFlag = 2, pReq = 0, pBody = whoamiSourceBody\<rparr>"
      and unmarshal = "\<lambda>b. Inr legacy_zeroRequest" and lr = "legacy_Handle NewPacker"]
    ParseRequest_rejects [where pkt = "\<lparr>hFlag = 8, hLen = 45, hReq = - 1\<rparr>"
      and ev = exampleEnv and r = "handle NewPacker" and rd = "bytesReader whoamiSourceBody"
      and p = "\<lparr>pFlag = 2, pReq = 0, pBody = whoamiSourceBody\<rparr>"
      and unmarshal = "\<lambda>b. Inr legacy_zeroRequest" and lr = "legacy_Handle NewPacker"]
  by (simp add: Flag_Get_def FlagJSON_def handle_def)

section \<open>The capacity of the inbound queues\<close>

text \<open>
  Claim C8, as amended. In the newer session every inbound queue made for a request, in
  \<open>Async\<close>, \<open>Sink\<close>, \<open>Duplex\<close> and in \<open>ParseRequest\<close> for an incoming call, has capacity
  150. In the older session the queues made in \<open>Async\<close>, \<open>Source\<close>, \<open>Sink\<close>, \<open>Duplex\<close> and
  \<open>ParseRequest\<close> have capacity 5.
\<close>

theorem inbound_queue_capacity:
  "(\<forall>a r'. Async ev r tp m args = (Inr a, r') \<longrightarrow>
       map_option pcap (inSink (heap r' a)) = Some 150)
   \<and> (\<forall>a r'. Sink ev r m args = (Inr a, r') \<longrightarrow>
       map_option pcap (inSink (heap r' a)) = Some 150)
   \<and> (\<forall>a r'. Duplex ev r tp m args = (Inr a, r') \<longrightarrow>
       map_option pcap (inSink (heap r' a)) = Some 150)
   \<and> (\<forall>req. ParseRequest ev r pkt rd = Inr req \<longrightarrow>
       map_option pcap (inSink req) = Some 150)
   \<and> (\<forall>a r'. legacy_Async marshal lr tp m args = (Inr a, r') \<longrightarrow>
       map_option pcap (lIn (lheap r' a)) = Some 5)
   \<and> (\<forall>a r'. legacy_Source marshal lr tp m args = (Inr a, r') \<longrightarrow>
       map_option pcap (lIn (lheap r' a)) = Some 5)
   \<and> (\<forall>a r'. legacy_Sink marshal lr m args = (Inr a, r') \<longrightarrow>
       map_option pcap (lIn (lheap r' a)) = Some 5)
   \<and> (\<forall>a r'. legacy_Duplex marshal lr m args = (Inr a, r') \<longrightarrow>
       map_option pcap (lIn (lheap r' a)) = Some 5)
   \<and> (\<forall>req. legacy_ParseRequest unmarshal lr p = Inr req \<longrightarrow>
       map_option pcap (lIn req) = Some 5)"
proof -
  have 1: "\<forall>a r'. Async ev r tp m args = (Inr a, r') \<longrightarrow>
       map_option pcap (inSink (heap r' a)) = Some 150"
    by (auto simp add: Async_def Let_def NewPipe_def bufSize_def split: sum.splits
        dest!: startCall_inSink)
  have 2: "\<forall>a r'. Sink ev r m args = (Inr a, r') \<longrightarrow>
       map_option pcap (inSink (heap r' a)) = Some 150"
    by (auto simp add: Sink_def Let_def NewPipe_def bufSize_def split: sum.splits
        dest!: startCall_inSink)
  have 3: "\<forall>a r'. Duplex ev r tp m args = (Inr a, r') \<longrightarrow>
       map_option pcap (inSink (heap r' a)) = Some 150"
    by (auto simp add: Duplex_def Let_def NewPipe_def bufSize_def split: sum.splits
        dest!: startCall_inSink)
  have 4: "\<forall>req. ParseRequest ev r pkt rd = Inr req \<longrightarrow>
       map_option pcap (inSink req) = Some 150"
    by (auto simp add: ParseRequest_def Let_def NewPipe_def bufSize_def
        split: sum.splits if_splits)
  have 5: "\<forall>a r'. legacy_Async marshal lr tp m args = (Inr a, r') \<longrightarrow>
       map_option pcap (lIn (lheap r' a)) = Some 5"
    by (auto simp add: legacy_Async_def NewPipe_def legacy_bufSize_def
        dest!: legacy_startCall_lIn)
  have 6: "\<forall>a r'. legacy_Source marshal lr tp m args = (Inr a, r') \<longrightarrow>
       map_option pcap (lIn (lheap r' a)) = Some 5"
    by (auto simp add: legacy_Source_def NewPipe_def legacy_bufSize_def
        dest!: legacy_startCall_lIn)
  have 7: "\<forall>a r'. legacy_Sink marshal lr m args = (Inr a, r') \<longrightarrow>
       map_option pcap (lIn (lheap r' a)) = Some 5"
    by (auto simp add: legacy_Sink_def NewPipe_def legacy_bufSize_def
        dest!: legacy_startCall_lIn)
  have 8: "\<forall>a r'. legacy_Duplex marshal lr m args = (Inr a, r') \<longrightarrow>
       map_option pcap (lIn (lheap r' a)) = Some 5"
    by (auto simp add: legacy_Duplex_def NewPipe_def legacy_bufSize_def
        dest!: legacy_startCall_lIn)
  have 9: "\<forall>req. legacy_ParseRequest unmarshal lr p = Inr req \<longrightarrow>
       map_option pcap (lIn req) = Some 5"
    by (auto simp add: legacy_ParseRequest_def NewPipe_def legacy_bufSize_def
        split: sum.splits if_splits)
  from 1 2 3 4 5 6 7 8 9 show ?thesis by blast
qed

text \<open>The queue of the first async call and of the first incoming call.\<close>

lemma Async_example: "Async exampleEnv (handle NewPacker) None [''whoami''] [] = (Inr 0, oneCall)"
  by (simp add: oneCall_def Async_def marshalCallArgs_def startCall_def alloc_def Do_def Let_def
      handle_def NewPacker_def Packer_Pour_def exampleEnv_def)

theorem inbound_queue_capacity_witness:
  "map_option pcap (inSink (heap oneCall 0)) = Some 150
   \<and> (case ParseRequest exampleEnv (handle NewPacker) sourceCallHeader
            (bytesReader whoamiSourceBody) of
         Inr req \<Rightarrow> map_option pcap (inSink req) = Some 150 | Inl e \<Rightarrow> False)"
  using inbound_queue_capacity [where ev = exampleEnv and r = "handle NewPacker" and tp = None
      and m = "[''whoami'']" and args = "[]" and pkt = sourceCallHeader
      and rd = "bytesReader whoamiSourceBody"] Async_example
  by (auto simp add: ParseRequest_def sourceCallHeader_def exampleEnv_def bytesReader_def
      Flag_Get_def FlagJSON_def FlagStream_def split: sum.splits)

text \<open>
  Claim C8 as stated fails for the older session: the inbound queue of an async call made
  there has capacity 5, not 150.
\<close>

theorem legacy_queue_capacity_is_5:
  "fst (legacy_Async (\<lambda>req. Inr ''{}'') (legacy_Handle NewPacker) None [''whoami''] []) = Inr 0
   \<and> map_option pcap (lIn (lheap (snd (legacy_Async (\<lambda>req. Inr ''{}'')
         (legacy_Handle NewPacker) None [''whoami''] [])) 0)) = Some 5"
  by (simp add: legacy_Async_def legacy_startCall_def legacy_Do_def legacy_Handle_def Let_def
      NewPacker_def Packer_Pour_def NewPipe_def legacy_bufSize_def)

section \<open>Payload frames\<close>

text \<open>
  Claim C9, as amended. When the serve loop routes a payload frame (no \<open>endOrError\<close>
  flag) to a known request that has an inbound queue with room, it reads the body and
  appends the packet to that queue and goes on; the stream's input capability is not
  consulted, so a stream with input capability none receives the payload like any other
  and no protocol error is raised.
\<close>

theorem serve_delivers_payload:
  assumes "\<not> Flag_Get (hFlag hdr) FlagEndErr"
    and "map_of (reqs r) (hReq hdr) = Some a"
    and "inSink (heap r a) = Some p"
    and "ReadFull rd (unat (hLen hdr)) = Inr body"
    and "length (queue p) < pcap p"
  shows "serveFrame ev r hdr rd =
           (Continue,
            r\<lparr>heap := (heap r)(a := (heap r a)\<lparr>inSink :=
                 Some (p\<lparr>queue := queue p @
                   [\<lparr>pFlag = hFlag hdr, pReq = hReq hdr, pBody = body\<rparr>]\<rparr>)\<rparr>)\<rparr>)"
  using assms
  by (simp add: serveFrame_def fetchRequest_def pipe_Pour_def)

text \<open>A payload frame for the outgoing async call with id 1.\<close>

theorem serve_delivers_payload_witness:
  "serveFrame exampleEnv oneCall \<lparr>hFlag = 2, hLen = 3, hReq = 1\<rparr> (bytesReader ''abc'') =
     (Continue,
      oneCall\<lparr>heap := (heap oneCall)(0 := (heap oneCall 0)\<lparr>inSink :=
         Some \<lparr>pcap = 150, queue = [\<lparr>pFlag = 2, pReq = 1, pBody = ''abc''\<rparr>]\<rparr>\<rparr>)\<rparr>)"
  using serve_delivers_payload [where hdr = "\<lparr>hFlag = 2, hLen = 3, hReq = 1\<rparr>" and r = oneCall
      and a = 0 and p = "\<lparr>pcap = 150, queue = []\<rparr>" and rd = "bytesReader ''abc''"
      and body = "''abc''" and ev = exampleEnv]
  by (simp add: oneCall_reqs oneCall_heap Flag_Get_def FlagEndErr_def ReadFull_def
      bytesReader_def)

text \<open>
  Claim C9 as stated fails: the stream of an incoming source call has input capability
  none, and a payload frame for it is put on its inbound queue; the serve loop goes on
  without an error.
\<close>

theorem payload_on_input_none_is_delivered:
  "map_of (reqs oneIncoming) (- 1) = Some 0
   \<and> inCap (Stream (heap oneIncoming 0)) = streamCapNone
   \<and> fst (serveFrame exampleEnv oneIncoming \<lparr>hFlag = 10, hLen = 3, hReq = - 1\<rparr>
        (bytesReader ''abc'')) = Continue
   \<and> map_option queue (inSink (heap (snd (serveFrame exampleEnv oneIncoming
        \<lparr>hFlag = 10, hLen = 3, hReq = - 1\<rparr> (bytesReader ''abc''))) 0))
      = Some [\<lparr>pFlag = 10, pReq = - 1, pBody = ''abc''\<rparr>]"
  by (simp add: oneIncoming_reqs oneIncoming_heap serveFrame_def fetchRequest_def
      pipe_Pour_def ReadFull_def bytesReader_def Flag_Get_def FlagEndErr_def)

section \<open>End frames\<close>

text \<open>
  Claim C2, as amended. The serve loop reads a frame with the \<open>endOrError\<close> flag for a
  request id present in \<open>reqs\<close> (the request carries the id it is stored under and its
  \<open>abort\<close> is set, as \<open>Do\<close> and \<open>fetchRequest\<close> leave it), and the body is read in full.
  The request's \<open>abort\<close> is called first, which cancels the handler context of an
  incoming call. If the body is exactly \<open>true\<close> the request is closed with
  end-of-stream and removed from \<open>reqs\<close>. Any other body is parsed as a \<open>CallError\<close>:
  if that succeeds the request is closed with that error and removed from \<open>reqs\<close>; if
  it fails \<open>Serve\<close> returns the parse error, the stream is left as it was and the
  request stays in \<open>reqs\<close>.
\<close>

theorem serve_end_frame:
  assumes "Flag_Get (hFlag hdr) FlagEndErr"
    and "map_of (reqs r) (hReq hdr) = Some a"
    and "reqId (heap r a) = hReq hdr"
    and "Request_abort (heap r a) = Some req1"
    and "ReadFull rd (unat (hLen hdr)) = Inr body"
  shows "case serveFrame ev r hdr rd of (s, r') \<Rightarrow>
           (abort (heap r a) = Some CancelFunc \<longrightarrow> ctxCancelled (heap r' a)) \<and>
           (body = ''true'' \<longrightarrow>
              s = Continue \<and> heap r' a = Request_CloseWithError None req1 \<and>
              sClosed (Stream (heap r' a)) \<and>
              (\<not> sClosed (Stream (heap r a)) \<longrightarrow> sErr (Stream (heap r' a)) = Some EOS) \<and>
              map_of (reqs r') (hReq hdr) = None) \<and>
           (body \<noteq> ''true'' \<longrightarrow>
              (case parseError ev body of
                 Inr ce \<Rightarrow>
                   s = Continue \<and>
                   heap r' a = Request_CloseWithError (Some (CallErr ce)) req1 \<and>
                   sClosed (Stream (heap r' a)) \<and>
                   (\<not> sClosed (Stream (heap r a)) \<longrightarrow>
                      sErr (Stream (heap r' a)) = Some (CallErr ce)) \<and>
                   map_of (reqs r') (hReq hdr) = None
               | Inl e \<Rightarrow>
                   s = Return (Some (Wrap e ''error parsing error packet'')) \<and>
                   Stream (heap r' a) = Stream (heap r a) \<and>
                   map_of (reqs r') (hReq hdr) = Some a))"
proof -
  have id1: "reqId req1 = hReq hdr" and st1: "Stream req1 = Stream (heap r a)"
    and cc: "abort (heap r a) = Some CancelFunc \<longrightarrow> ctxCancelled req1"
    using assms(3,4)
    by (auto simp add: Request_abort_def split: option.splits abortFn.splits)
  have idc: "reqId (Request_CloseWithError c req1) = hReq hdr" for c
    using id1 by (simp add: Request_CloseWithError_def)
  have ccc: "ctxCancelled (Request_CloseWithError c req1) = ctxCancelled req1" for c
    by (simp add: Request_CloseWithError_def)
  have cl: "sClosed (Stream (Request_CloseWithError c req1))" for c
    by (simp add: Request_CloseWithError_def)
  have er: "\<not> sClosed (Stream (heap r a)) \<longrightarrow>
      sErr (Stream (Request_CloseWithError c req1)) = Some (case c of None \<Rightarrow> EOS | Some e \<Rightarrow> e)"
    for c
    using st1 by (simp add: Request_CloseWithError_def)
  show ?thesis
  proof (cases "body = ''true''")
    case True
    then have "serveFrame ev r hdr rd
        = (Continue, closeStream (r\<lparr>heap := (heap r)(a := req1)\<rparr>) a None)"
      using assms by (simp add: serveFrame_def isTrue_iff)
    then show ?thesis
      using True cc idc [of None] ccc [of None] cl [of None] er [of None]
      by (simp add: closeStream_def Let_def delete_conv')
  next
    case False
    show ?thesis
    proof (cases "parseError ev body")
      case (Inl e)
      then have "serveFrame ev r hdr rd
          = (Return (Some (Wrap e ''error parsing error packet'')), r\<lparr>heap := (heap r)(a := req1)\<rparr>)"
        using assms False by (simp add: serveFrame_def isTrue_iff)
      then show ?thesis
        using False Inl cc st1 assms(2) by simp
    next
      case (Inr ce)
      then have "serveFrame ev r hdr rd
          = (Continue, closeStream (r\<lparr>heap := (heap r)(a := req1)\<rparr>) a (Some (CallErr ce)))"
        using assms False by (simp add: serveFrame_def isTrue_iff)
      then show ?thesis
        using False Inr cc idc [of "Some (CallErr ce)"] ccc [of "Some (CallErr ce)"]
          cl [of "Some (CallErr ce)"] er [of "Some (CallErr ce)"]
        by (simp add: closeStream_def Let_def delete_conv')
    qed
  qed
qed

text \<open>The end frame \<open>true\<close> for the outgoing async call with id 1.\<close>

theorem serve_end_frame_witness:
  "fst (serveFrame exampleEnv oneCall \<lparr>hFlag = 6, hLen = 4, hReq = 1\<rparr> (bytesReader ''true''))
     = Continue
   \<and> sErr (Stream (heap (snd (serveFrame exampleEnv oneCall \<lparr>hFlag = 6, hLen = 4, hReq = 1\<rparr>
        (bytesReader ''true''))) 0)) = Some EOS
   \<and> map_of (reqs (snd (serveFrame exampleEnv oneCall \<lparr>hFlag = 6, hLen = 4, hReq = 1\<rparr>
        (bytesReader ''true'')))) 1 = None"
  using serve_end_frame [where hdr = "\<lparr>hFlag = 6, hLen = 4, hReq = 1\<rparr>" and r = oneCall
      and a = 0 and ?req1.0 = "heap oneCall 0" and rd = "bytesReader ''true''"
      and body = "''true''" and ev = exampleEnv]
  by (simp add: oneCall_reqs oneCall_heap Flag_Get_def FlagEndErr_def ReadFull_def
      bytesReader_def Request_abort_def split_beta Request_CloseWithError_def)

text \<open>
  Claim C2 as stated fails for a body that is neither \<open>true\<close> nor a JSON object: with
  the body \<open>false\<close> the serve loop returns an error, the request stays in \<open>reqs\<close> and
  its stream is not closed.
\<close>

theorem unparsable_end_body_stops_serve:
  "map_of (reqs oneCall) 1 = Some 0
   \<and> fst (serveFrame exampleEnv oneCall \<lparr>hFlag = 6, hLen = 5, hReq = 1\<rparr>
        (bytesReader ''false''))
      = Return (Some (Wrap (Wrap (New ''json: cannot unmarshal'')
            ''error unmarshaling error packet'') ''error parsing error packet''))
   \<and> map_of (reqs (snd (serveFrame exampleEnv oneCall \<lparr>hFlag = 6, hLen = 5, hReq = 1\<rparr>
        (bytesReader ''false'')))) 1 = Some 0
   \<and> \<not> sClosed (Stream (heap (snd (serveFrame exampleEnv oneCall
        \<lparr>hFlag = 6, hLen = 5, hReq = 1\<rparr> (bytesReader ''false''))) 0))"
  by (simp add: oneCall_reqs oneCall_heap serveFrame_def Flag_Get_def FlagEndErr_def
      ReadFull_def bytesReader_def Request_abort_def isTrue_iff parseError_def exampleEnv_def
      boomErrorBody_def)

section \<open>Termination\<close>

lemma Serve_read_error_after_Terminate:
  "terminated r \<Longrightarrow> fst (Serve ev r (RxErr e # rest)) = Return None"
  by (simp add: doRet_def Let_def split: prod.splits)

text \<open>
  Claim C3, as amended. \<open>Terminate\<close> sets the \<open>terminated\<close> flag, cancels the root
  context, closes every request in \<open>reqs\<close> with \<open>ErrSessionTerminated\<close> (the requests
  stay in the table), and closes the packer. After it, whatever error or end-of-stream
  \<open>NextHeader\<close> returns to the serve loop is absorbed and \<open>Serve\<close> returns nil.
\<close>

theorem Terminate_closes_session:
  "case Terminate r of (e, r') \<Rightarrow>
     e = None \<and> terminated r' \<and> cancelled r' \<and> pkrClosed (pkr r') \<and> reqs r' = reqs r \<and>
     (\<forall>a \<in> set (map snd (reqs r)).
        heap r' a = Request_CloseWithError (Some ErrSessionTerminated) (heap r a) \<and>
        sClosed (Stream (heap r' a)) \<and>
        (\<not> sClosed (Stream (heap r a)) \<longrightarrow>
           sErr (Stream (heap r' a)) = Some ErrSessionTerminated)) \<and>
     (\<forall>err rest. fst (Serve ev r' (RxErr err # rest)) = Return None)"
proof -
  obtain e r' where t: "Terminate r = (e, r')"
    by (cases "Terminate r")
  have flags: "e = None \<and> terminated r' \<and> cancelled r' \<and> pkrClosed (pkr r') \<and> reqs r' = reqs r"
    using t by (auto simp add: Terminate_def Let_def Packer_Close_def split: if_splits)
  have hp: "heap r' = (if 0 < length (reqs r)
                       then closeAll ErrSessionTerminated (map snd (reqs r)) (heap r)
                       else heap r)"
    using t by (auto simp add: Terminate_def Let_def Packer_Close_def split: if_splits)
  have cl: "\<forall>a \<in> set (map snd (reqs r)).
        heap r' a = Request_CloseWithError (Some ErrSessionTerminated) (heap r a)"
  proof
    fix a assume a: "a \<in> set (map snd (reqs r))"
    then have "0 < length (reqs r)" by (cases "reqs r") simp_all
    with a hp show "heap r' a = Request_CloseWithError (Some ErrSessionTerminated) (heap r a)"
      by (simp add: closeAll_apply)
  qed
  have cl2: "\<forall>a \<in> set (map snd (reqs r)).
        heap r' a = Request_CloseWithError (Some ErrSessionTerminated) (heap r a) \<and>
        sClosed (Stream (heap r' a)) \<and>
        (\<not> sClosed (Stream (heap r a)) \<longrightarrow>
           sErr (Stream (heap r' a)) = Some ErrSessionTerminated)"
  proof
    fix a assume a: "a \<in> set (map snd (reqs r))"
    with cl have "heap r' a = Request_CloseWithError (Some ErrSessionTerminated) (heap r a)"
      by blast
    then show "heap r' a = Request_CloseWithError (Some ErrSessionTerminated) (heap r a) \<and>
        sClosed (Stream (heap r' a)) \<and>
        (\<not> sClosed (Stream (heap r a)) \<longrightarrow>
           sErr (Stream (heap r' a)) = Some ErrSessionTerminated)"
      by (simp add: Request_CloseWithError_def)
  qed
  have sv: "\<forall>err rest. fst (Serve ev r' (RxErr err # rest)) = Return None"
    using flags Serve_read_error_after_Terminate by blast
  from flags cl2 sv show ?thesis
    unfolding t prod.case by blast
qed

text \<open>The session with one outgoing call, terminated, then a failing header read.\<close>

theorem Terminate_closes_session_witness:
  "terminated (snd (Terminate oneCall)) \<and> pkrClosed (pkr (snd (Terminate oneCall)))
   \<and> sErr (Stream (heap (snd (Terminate oneCall)) 0)) = Some ErrSessionTerminated
   \<and> fst (Serve exampleEnv (snd (Terminate oneCall))
        [RxErr (IOError ''read: connection reset by peer'')]) = Return None"
  using Terminate_closes_session [where r = oneCall and ev = exampleEnv]
  by (simp add: oneCall_reqs oneCall_heap split_beta Request_CloseWithError_def del: Serve.simps)

text \<open>
  Claim C3 as stated fails for an error met while reading a body: the flag \<open>terminated\<close>
  is consulted only after \<open>NextHeader\<close>. Here the header of an end frame is still
  delivered and the read of its body fails on the closed connection, as happens when
  \<open>Terminate\<close> runs between the two reads; \<open>Serve\<close> returns the wrapped error.
\<close>

theorem body_read_error_after_Terminate:
  "terminated (snd (Terminate oneCall))
   \<and> fst (Serve exampleEnv (snd (Terminate oneCall))
        [RxFrame \<lparr>hFlag = 6, hLen = 4, hReq = 1\<rparr>
           \<lparr>rdata = ''tr'', rerr = Some (IOError ''use of closed network connection'')\<rparr>])
      = Return (Some (Wrap (IOError ''use of closed network connection'')
          ''muxrpc: failed to get error body for closing of req: %d (len:%d)''))"
  by (simp add: Terminate_def Let_def Packer_Close_def oneCall_reqs oneCall_heap doRet_def
      IsEOS_def serveFrame_def Flag_Get_def FlagEndErr_def closeAll_def
      Request_CloseWithError_def Request_abort_def ReadFull_def)

section \<open>Closing a byte source twice\<close>

text \<open>
  Claim C7 at its failing input. \<open>Close\<close> on a fresh byte source succeeds; a second
  \<open>Close\<close> panics, because \<open>CloseWithError\<close> closes the channel \<open>closed\<close> without
  looking at it. \<open>Close\<close> after \<open>CloseWithError(e)\<close> first overwrites the terminal error
  \<open>e\<close> with end-of-stream and then panics the same way. \<open>Cancel\<close> is guarded by the
  test of \<open>failed\<close> and leaves a closed byte source alone.
\<close>

theorem ByteSource_second_Close_panics:
  "ByteSource_Close newByteSource = Ok (newByteSource\<lparr>failed := Some EOS, closedCh := True\<rparr>)
   \<and> ByteSource_Close (newByteSource\<lparr>failed := Some EOS, closedCh := True\<rparr>)
       = Panic ''close of closed channel'' (newByteSource\<lparr>failed := Some EOS, closedCh := True\<rparr>)
   \<and> ByteSource_CloseWithError newByteSource (Some (New ''boom''))
       = Ok (newByteSource\<lparr>failed := Some (New ''boom''), closedCh := True\<rparr>)
   \<and> ByteSource_Close (newByteSource\<lparr>failed := Some (New ''boom''), closedCh := True\<rparr>)
       = Panic ''close of closed channel'' (newByteSource\<lparr>failed := Some EOS, closedCh := True\<rparr>)
   \<and> ByteSource_Cancel (newByteSource\<lparr>failed := Some (New ''boom''), closedCh := True\<rparr>) None
       = Ok (newByteSource\<lparr>failed := Some (New ''boom''), closedCh := True\<rparr>)"
  by (simp add: ByteSource_Close_def ByteSource_CloseWithError_def ByteSource_Cancel_def
      newByteSource_def)

section \<open>The frame buffer after a failed \<open>getNextFrameReader\<close>\<close>

lemmas char_of_eval = char_of_def bit_0 bit_Suc numeral_Bit0_div_2 numeral_Bit1_div_2

lemma PutUint32_5: "PutUint32 5 = [CHR 0x05, CHR 0x00, CHR 0x00, CHR 0x00]"
  by (simp add: PutUint32_def char_of_eval)

lemma PutUint32_3: "PutUint32 3 = [CHR 0x03, CHR 0x00, CHR 0x00, CHR 0x00]"
  by (simp add: PutUint32_def char_of_eval)

lemma copy1: "copyBody newFrameBuffer 5 (bytesReader ''hello'') = (None,
   \<lparr>store = [CHR 0x05, CHR 0x00, CHR 0x00, CHR 0x00] @ ''hello'', waiting = False,
    currentFrameTotal = 0, currentFrameRead = 0, frames = 1,
    lenBuf = [CHR 0x05, CHR 0x00, CHR 0x00, CHR 0x00]\<rparr>)"
  by (simp add: copyBody_def newFrameBuffer_def bytesReader_def PutUint32_5 Let_def)

lemma next1: "getNextFrameReader fb1 = (Inr (5, \<lparr>limN = 5\<rparr>),
   \<lparr>store = ''hello'', waiting = False,
    currentFrameTotal = 5, currentFrameRead = 0, frames = 0,
    lenBuf = [CHR 0x05, CHR 0x00, CHR 0x00, CHR 0x00]\<rparr>)"
  by (simp add: fb1_def copy1 getNextFrameReader_def Let_def Uint32_def)

lemma read1: "countingReader_Read \<lparr>limN = 5\<rparr> fb2 2 = ((''he'', None), \<lparr>limN = 3\<rparr>,
   \<lparr>store = ''llo'', waiting = False,
    currentFrameTotal = 5, currentFrameRead = 2, frames = 0,
    lenBuf = [CHR 0x05, CHR 0x00, CHR 0x00, CHR 0x00]\<rparr>)"
  by (simp add: fb2_def next1 countingReader_Read_def Let_def)

lemma next2: "getNextFrameReader fb3 = (Inl IoEOF,
   \<lparr>store = [], waiting = False,
    currentFrameTotal = 5, currentFrameRead = 2, frames = 0,
    lenBuf = [CHR 0x05, CHR 0x00, CHR 0x00, CHR 0x00]\<rparr>)"
  by (simp add: fb3_def read1 getNextFrameReader_def Let_def)

lemma copy2: "copyBody fb4 3 (bytesReader ''abc'') = (None,
   \<lparr>store = [CHR 0x03, CHR 0x00, CHR 0x00, CHR 0x00] @ ''abc'', waiting = False,
    currentFrameTotal = 5, currentFrameRead = 2, frames = 1,
    lenBuf = [CHR 0x03, CHR 0x00, CHR 0x00, CHR 0x00]\<rparr>)"
  by (simp add: fb4_def next2 copyBody_def bytesReader_def PutUint32_3 Let_def)

lemma next3: "getNextFrameReader fb5 = (Inr (1667391744, \<lparr>limN = 1667391744\<rparr>),
   \<lparr>store = [], waiting = False,
    currentFrameTotal = 1667391744, currentFrameRead = 0, frames = 0,
    lenBuf = [CHR 0x00, CHR ''a'', CHR ''b'', CHR ''c'']\<rparr>)"
  by (simp add: fb5_def copy2 getNextFrameReader_def Let_def Uint32_def)

text \<open>
  Claim C10 at its failing input. The body \<open>hello\<close> is stored and its reader handed out
  with length 5; two bytes are read. The next \<open>getNextFrameReader\<close> discards the three
  unread bytes and, the store being empty, returns \<open>io.EOF\<close> without resetting
  \<open>currentFrameTotal\<close> and \<open>currentFrameRead\<close>. The body \<open>abc\<close> is stored next. The
  following \<open>getNextFrameReader\<close> discards three bytes again, now the first three of the
  new frame's length header, and reports the length 1667391744 for a frame of 3 bytes;
  the store is empty afterwards, so the body is lost.
\<close>

theorem stale_skip_after_failed_getNextFrameReader:
  "copyBody newFrameBuffer 5 (bytesReader ''hello'') = (None, fb1)
   \<and> fst (getNextFrameReader fb1) = Inr (5, \<lparr>limN = 5\<rparr>)
   \<and> fst (countingReader_Read \<lparr>limN = 5\<rparr> fb2 2) = (''he'', None)
   \<and> fst (getNextFrameReader fb3) = Inl IoEOF
   \<and> fst (copyBody fb4 3 (bytesReader ''abc'')) = None
   \<and> frames fb5 = 1
   \<and> fst (getNextFrameReader fb5) = Inr (1667391744, \<lparr>limN = 1667391744\<rparr>)
   \<and> store (snd (getNextFrameReader fb5)) = []"
proof -
  have 1: "copyBody newFrameBuffer 5 (bytesReader ''hello'') = (None, fb1)"
    by (simp add: fb1_def copy1)
  have 2: "fst (getNextFrameReader fb1) = Inr (5, \<lparr>limN = 5\<rparr>)"
    by (simp add: next1)
  have 3: "fst (countingReader_Read \<lparr>limN = 5\<rparr> fb2 2) = (''he'', None)"
    by (simp add: read1)
  have 4: "fst (getNextFrameReader fb3) = Inl IoEOF"
    by (simp add: next2)
  have 5: "fst (copyBody fb4 3 (bytesReader ''abc'')) = None"
    by (simp add: copy2)
  have 6: "frames fb5 = 1"
    by (simp add: fb5_def copy2)
  have 7: "fst (getNextFrameReader fb5) = Inr (1667391744, \<lparr>limN = 1667391744\<rparr>)"
    by (simp add: next3)
  have 8: "store (snd (getNextFrameReader fb5)) = []"
    by (simp add: next3)
  from 1 2 3 4 5 6 7 8 show ?thesis
    by blast
qed

section \<open>A \<open>CallError\<close> written and read back\<close>

declare tok.simps(3,4) [simp del]
declare escapeString.simps(2) [simp del]
declare validUTF8.simps(2) [simp del]

lemma char_eq_nat: "(a = c) = ((of_char a :: nat) = of_char c)"
  by simp

lemma hexVal_hexDigit: "n < 16 \<Longrightarrow> hexVal (hexDigit n) = Some n"
  by (simp add: hexVal_def hexDigit_def Let_def)

lemma getu4_byte:
  "x < 256 \<Longrightarrow> getu4 (CHR ''0'') (CHR ''0'') (hexDigit (x div 16)) (hexDigit (x mod 16)) = Some x"
proof -
  assume "x < 256"
  then have "x div 16 < 16" by simp
  then have a: "hexVal (hexDigit (x div 16)) = Some (x div 16)"
    by (rule hexVal_hexDigit)
  have b: "hexVal (hexDigit (x mod 16)) = Some (x mod 16)"
    by (rule hexVal_hexDigit) simp
  have z: "hexVal (CHR ''0'') = Some 0"
    by (simp add: hexVal_def)
  show ?thesis
    by (simp add: getu4_def a b z)
qed

lemma utf8Size_length: "utf8Size s \<le> length s"
  by (simp add: utf8Size_def Let_def split: list.split)

lemma utf8Size_append:
  assumes "utf8Size s \<noteq> 0"
  shows "utf8Size (take (utf8Size s) s @ t) = utf8Size s"
proof (cases s)
  case Nil
  with assms show ?thesis by (simp add: utf8Size_def)
next
  case s1: (Cons a sa)
  show ?thesis
  proof (cases sa)
    case Nil
    with s1 assms show ?thesis
      by (simp add: utf8Size_def Let_def split: if_splits)
  next
    case s2: (Cons b sb)
    show ?thesis
    proof (cases sb)
      case Nil
      with s1 s2 assms show ?thesis
        by (simp add: utf8Size_def Let_def split: if_splits)
    next
      case s3: (Cons c sc)
      show ?thesis
      proof (cases sc)
        case Nil
        with s1 s2 s3 assms show ?thesis
          by (simp add: utf8Size_def Let_def split: if_splits)
      next
        case (Cons d u)
        with s1 s2 s3 assms show ?thesis
          by (simp add: utf8Size_def Let_def split: if_splits)
      qed
    qed
  qed
qed

lemma utf8Size_ascii: "(of_char a :: nat) < 0x80 \<Longrightarrow> utf8Size (a # t) = 1"
  by (simp add: utf8Size_def)

lemma tok_plain:
  "htmlSafe a \<Longrightarrow> tok (Some acc) (a # r) = tok (Some (acc @ [a])) r"
  by (simp add: tok.simps(4) htmlSafe_def Let_def char_eq_nat [of a])

lemma char_of_of_char_nat: "char_of (of_char a :: nat) = a"
  by simp

lemma tok_u: 
  "getu4 h1 h2 h3 h4 = Some r \<Longrightarrow> \<not> (0xD800 \<le> r \<and> r < 0xE000) \<Longrightarrow>
   tok (Some acc) (CHR 0x5C # CHR ''u'' # h1 # h2 # h3 # h4 # rest)
     = tok (Some (acc @ EncodeRune r)) rest"
  by (auto simp add: tok.simps(4))

lemma tok_escaped:
  assumes "(of_char a :: nat) < 0x80" and "\<not> htmlSafe a"
  shows "tok (Some acc) (escapeByte a @ r) = tok (Some (acc @ [a])) r"
proof -
  let ?x = "of_char a :: nat"
  consider (q) "?x = 0x5C \<or> ?x = 0x22" | (n) "?x = 0x0A" | (r) "?x = 0x0D" | (t) "?x = 0x09"
    | (u) "?x \<noteq> 0x5C" "?x \<noteq> 0x22" "?x \<noteq> 0x0A" "?x \<noteq> 0x0D" "?x \<noteq> 0x09"
    by blast
  then show ?thesis
  proof cases
    case q
    then show ?thesis
      by (auto simp add: escapeByte_def tok.simps(4) unescapeChar_def char_eq_nat [of a])
  next
    case n
    then have "a = CHR 0x0A" by (simp add: char_eq_nat [of a])
    then show ?thesis
      by (simp add: escapeByte_def tok.simps(4) unescapeChar_def)
  next
    case r
    then have "a = CHR 0x0D" by (simp add: char_eq_nat [of a])
    then show ?thesis
      by (simp add: escapeByte_def tok.simps(4) unescapeChar_def)
  next
    case t
    then have "a = CHR 0x09" by (simp add: char_eq_nat [of a])
    then show ?thesis
      by (simp add: escapeByte_def tok.simps(4) unescapeChar_def)
  next
    case u
    have g: "getu4 (CHR ''0'') (CHR ''0'') (hexDigit (?x div 16)) (hexDigit (?x mod 16)) = Some ?x"
      by (rule getu4_byte) simp
    have e: "EncodeRune ?x = [a]"
      using assms(1) by (simp add: EncodeRune_def)
    have "escapeByte a = [CHR 0x5C, CHR ''u'', CHR ''0'', CHR ''0'',
        hexDigit (?x div 16), hexDigit (?x mod 16)]"
      using u by (simp add: escapeByte_def Let_def)
    then show ?thesis
      using assms(1) tok_u [OF g, of acc r] e by simp
  qed
qed

lemma tok_u2028:
  "tok (Some acc) ([CHR 0x5C, CHR ''u'', CHR ''2'', CHR ''0'', CHR ''2'', CHR ''8''] @ r)
     = tok (Some (acc @ [CHR 0xE2, CHR 0x80, CHR 0xA8])) r"
proof -
  have g: "getu4 (CHR ''2'') (CHR ''0'') (CHR ''2'') (CHR ''8'') = Some 0x2028"
    by (simp add: getu4_def hexVal_def)
  have e: "EncodeRune 0x2028 = [CHR 0xE2, CHR 0x80, CHR 0xA8]"
    by (simp add: EncodeRune_def char_of_eval)
  show ?thesis
    using tok_u [OF g, of acc r] e by simp
qed

lemma tok_u2029:
  "tok (Some acc) ([CHR 0x5C, CHR ''u'', CHR ''2'', CHR ''0'', CHR ''2'', CHR ''9''] @ r)
     = tok (Some (acc @ [CHR 0xE2, CHR 0x80, CHR 0xA9])) r"
proof -
  have g: "getu4 (CHR ''2'') (CHR ''0'') (CHR ''2'') (CHR ''9'') = Some 0x2029"
    by (simp add: getu4_def hexVal_def)
  have e: "EncodeRune 0x2029 = [CHR 0xE2, CHR 0x80, CHR 0xA9]"
    by (simp add: EncodeRune_def char_of_eval)
  show ?thesis
    using tok_u [OF g, of acc r] e by simp
qed

lemma tok_multibyte:
  assumes hi: "\<not> (of_char a :: nat) < 0x80" and n: "utf8Size (a # t) \<noteq> 0"
  shows "tok (Some acc) (take (utf8Size (a # t)) (a # t) @ r)
           = tok (Some (acc @ take (utf8Size (a # t)) (a # t))) r"
proof -
  let ?n = "utf8Size (a # t)"
  have len: "?n - 1 \<le> length t"
    using utf8Size_length [of "a # t"] by simp
  have tk: "take ?n (a # t) = a # take (?n - 1) t"
    using n by (cases ?n) simp_all
  have sz: "utf8Size (a # take (?n - 1) t @ r) = ?n"
    using utf8Size_append [OF n, of r] tk by simp
  have q: "a \<noteq> CHR 0x22" and b: "a \<noteq> CHR 0x5C"
    using hi by (auto simp add: char_eq_nat [of a])
  have lo: "\<not> (of_char a :: nat) < 0x20"
    using hi by simp
  have "tok (Some acc) (a # take (?n - 1) t @ r)
          = tok (Some (acc @ take ?n (a # take (?n - 1) t @ r)))
              (drop (?n - 1) (take (?n - 1) t @ r))"
    using q b lo hi n sz by (simp add: tok.simps(4))
  moreover have "take ?n (a # take (?n - 1) t @ r) = a # take (?n - 1) t"
    using n len by (cases ?n) simp_all
  moreover have "drop (?n - 1) (take (?n - 1) t @ r) = r"
    using len by simp
  ultimately show ?thesis
    using tk by simp
qed

lemma tok_string:
  "validUTF8 s \<Longrightarrow>
   tok (Some acc) (escapeString s @ CHR 0x22 # rest)
     = map_option ((#) (Str (acc @ s))) (tok None rest)"
proof (induction "length s" arbitrary: s acc rule: less_induct)
  case less
  show ?case
  proof (cases s)
    case Nil
    then show ?thesis by (simp add: tok.simps(4))
  next
    case (Cons a t)
    let ?n = "utf8Size (a # t)"
    let ?E = "\<lambda>u. escapeString u @ CHR 0x22 # rest"
    from less.prems Cons have n: "?n \<noteq> 0" and v: "validUTF8 (drop (?n - 1) t)"
      by (simp_all add: validUTF8.simps(2))
    have IH: "tok (Some acc') (?E (drop (?n - 1) t))
                = map_option ((#) (Str (acc' @ drop (?n - 1) t))) (tok None rest)" for acc'
      using less.hyps [of "drop (?n - 1) t" acc'] v Cons by simp
    have split: "take ?n (a # t) @ drop (?n - 1) t = a # t"
      using n by (cases ?n) simp_all
    show ?thesis
    proof (cases "(of_char a :: nat) < 0x80")
      case True
      then have n1: "?n = 1" by (rule utf8Size_ascii)
      have IH1: "tok (Some (acc @ [a])) (?E t)
                   = map_option ((#) (Str ((acc @ [a]) @ t))) (tok None rest)"
        using IH [of "acc @ [a]"] n1 by simp
      show ?thesis
      proof (cases "htmlSafe a")
        case safe: True
        have "escapeString (a # t) = a # escapeString t"
          using True safe by (simp add: escapeString.simps(2))
        then show ?thesis
          using tok_plain [OF safe, of acc "?E t"] IH1 Cons by simp
      next
        case unsafe: False
        have "escapeString (a # t) = escapeByte a @ escapeString t"
          using True unsafe by (simp add: escapeString.simps(2))
        then show ?thesis
          using tok_escaped [OF True unsafe, of acc "?E t"] IH1 Cons by simp
      qed
    next
      case False
      show ?thesis
      proof (cases "take 3 (a # t) = [CHR 0xE2, CHR 0x80, CHR 0xA8]")
        case ls: True
        then have n3: "?n = 3"
          by (cases t; cases "tl t") (auto simp add: utf8Size_def byteIn_def)
        have "escapeString (a # t)
                = [CHR 0x5C, CHR ''u'', CHR ''2'', CHR ''0'', CHR ''2'', CHR ''8'']
                  @ escapeString (drop 2 t)"
          using False n ls by (simp add: escapeString.simps(2))
        moreover have "[CHR 0xE2, CHR 0x80, CHR 0xA8] @ drop 2 t = a # t"
          using split unfolding n3 ls by simp
        ultimately show ?thesis
          using tok_u2028 [of acc "?E (drop 2 t)"]
            IH [of "acc @ [CHR 0xE2, CHR 0x80, CHR 0xA8]"] n3 Cons by simp
      next
        case nls: False
        show ?thesis
        proof (cases "take 3 (a # t) = [CHR 0xE2, CHR 0x80, CHR 0xA9]")
          case ps: True
          then have n3: "?n = 3"
            by (cases t; cases "tl t") (auto simp add: utf8Size_def byteIn_def)
          have "escapeString (a # t)
                  = [CHR 0x5C, CHR ''u'', CHR ''2'', CHR ''0'', CHR ''2'', CHR ''9'']
                    @ escapeString (drop 2 t)"
            using False n nls ps by (simp add: escapeString.simps(2))
          moreover have "[CHR 0xE2, CHR 0x80, CHR 0xA9] @ drop 2 t = a # t"
            using split unfolding n3 ps by simp
          ultimately show ?thesis
            using tok_u2029 [of acc "?E (drop 2 t)"]
              IH [of "acc @ [CHR 0xE2, CHR 0x80, CHR 0xA9]"] n3 Cons by simp
        next
          case nps: False
          have "escapeString (a # t)
                  = take ?n (a # t) @ escapeString (drop (?n - 1) t)"
            by (simp only: escapeString.simps(2) False n nls nps if_False)
          then have "tok (Some acc) (?E (a # t))
              = tok (Some (acc @ take ?n (a # t))) (?E (drop (?n - 1) t))"
            using tok_multibyte [OF False n, of acc "?E (drop (?n - 1) t)"] by simp
          also have "\<dots> = map_option ((#) (Str ((acc @ take ?n (a # t)) @ drop (?n - 1) t)))
              (tok None rest)"
            by (rule IH)
          finally show ?thesis
            using split Cons by simp
        qed
      qed
    qed
  qed
qed

lemma tok_marshalCallError:
  assumes "validUTF8 (Name e)" and "validUTF8 (Message e)" and "validUTF8 (Stack e)"
  shows "tok None (marshalCallError e) =
           Some [LBrace, Str ''name'', Colon, Str (Name e), Comma,
                 Str ''message'', Colon, Str (Message e), Comma,
                 Str ''stack'', Colon, Str (Stack e), RBrace]"
  using assms
  by (simp add: marshalCallError_def quoteString_def tok.simps(3,4) isSpace_def tok_string)

lemma decodeObject_fields:
  "decodeObject [LBrace, Str ''name'', Colon, Str n, Comma,
                 Str ''message'', Colon, Str m, Comma,
                 Str ''stack'', Colon, Str s, RBrace]
     = Some \<lparr>Name = n, Message = m, Stack = s\<rparr>"
  by (simp add: decodeObject_def setField_def asciiLower_def)

lemma escape_invalid: "escapeString [CHR 0xFF] = [CHR 0x5C, CHR ''u'', CHR ''f'', CHR ''f'', CHR ''f'', CHR ''d'']"
  by (simp add: escapeString.simps(2) utf8Size_def)

lemma tok_invalid:
  "tok None (marshalCallError \<lparr>Name = [CHR 0xFF], Message = [], Stack = []\<rparr>) =
     Some [LBrace, Str ''name'', Colon, Str [CHR 0xEF, CHR 0xBF, CHR 0xBD], Comma,
           Str ''message'', Colon, Str [], Comma, Str ''stack'', Colon, Str [], RBrace]"
proof -
  have g: "getu4 (CHR ''f'') (CHR ''f'') (CHR ''f'') (CHR ''d'') = Some 0xFFFD"
    by (simp add: getu4_def hexVal_def)
  have e: "EncodeRune 0xFFFD = [CHR 0xEF, CHR 0xBF, CHR 0xBD]"
    by (simp add: EncodeRune_def char_of_eval)
  show ?thesis
    by (simp add: marshalCallError_def quoteString_def escape_invalid g e tok.simps(3,4) isSpace_def)
qed

text \<open>
  Claim C6, as amended. For every \<open>CallError\<close> whose name, message and stack are valid
  UTF-8, the JSON text \<open>json.Marshal\<close> writes for it, given to \<open>parseError\<close>, yields a
  \<open>CallError\<close> with the same three fields.
\<close>

theorem CallError_roundtrip:
  assumes "validUTF8 (Name e)" and "validUTF8 (Message e)" and "validUTF8 (Stack e)"
  shows "parseError jsonEnv (marshalCallError e) = Inr e"
proof -
  have "unmarshalCallError (marshalCallError e)
          = Inr \<lparr>Name = Name e, Message = Message e, Stack = Stack e\<rparr>"
    by (simp add: unmarshalCallError_def tok_marshalCallError [OF assms] decodeObject_fields)
  then show ?thesis
    by (simp add: parseError_def jsonEnv_def)
qed

text \<open>An error with name \<open>Error\<close> and message \<open>boom\<close>.\<close>

theorem CallError_roundtrip_witness:
  "parseError jsonEnv (marshalCallError \<lparr>Name = ''Error'', Message = ''boom'', Stack = []\<rparr>)
     = Inr \<lparr>Name = ''Error'', Message = ''boom'', Stack = []\<rparr>"
  using CallError_roundtrip [of "\<lparr>Name = ''Error'', Message = ''boom'', Stack = []\<rparr>"]
  by (simp add: validUTF8.simps(2) utf8Size_def)

text \<open>
  Claim C6 as stated fails for a field that is not valid UTF-8: the name consisting of
  the single byte 0xFF is written as \<open>\ufffd\<close> and comes back as the three bytes of
  U+FFFD.
\<close>

theorem CallError_invalid_utf8_not_preserved:
  "parseError jsonEnv (marshalCallError \<lparr>Name = [CHR 0xFF], Message = [], Stack = []\<rparr>)
     = Inr \<lparr>Name = [CHR 0xEF, CHR 0xBF, CHR 0xBD], Message = [], Stack = []\<rparr>"
  by (simp add: parseError_def jsonEnv_def unmarshalCallError_def tok_invalid decodeObject_fields)

end
